theory Spec2Isabelle
  imports Complex_Main "HOL-Library.Word" "HOL-Library.AList" "HOL-Library.Char_ord"
    "HOL-Library.List_Lexorder" "HOL-Library.Signed_Division"
begin

section \<open>Basic types\<close>

text \<open>
  A Go \<^verbatim>\<open>error\<close> is modelled by its message. A \<^verbatim>\<open>time.Time\<close> is the instant it
  denotes, in nanoseconds since the Unix epoch (location and monotonic clock reading are
  not part of the model, so \<^verbatim>\<open>UTC()\<close> is the identity); a \<^verbatim>\<open>time.Duration\<close> is a
  number of nanoseconds. A call of \<^verbatim>\<open>time.Now()\<close> is an argument \<open>now\<close> of the
  operation that makes it. The per-record mutex is not modelled: the model is sequential.
\<close>

type_synonym error = string
type_synonym time = int
type_synonym duration = int
type_synonym byte = "8 word"

definition Second :: duration where
  "Second = 1000000000"

text \<open>\<^verbatim>\<open>time.Time{}\<close>, January 1 of year 1, as an instant before the Unix epoch.\<close>

definition zero_time :: time where
  "zero_time = - 62135596800 * 1000000000"

definition IsZero :: "time \<Rightarrow> bool" where
  "IsZero t = (t = zero_time)"

text \<open>\<^verbatim>\<open>t.Unix()\<close>: whole seconds since the epoch, rounded down. \<^verbatim>\<open>time.Unix(sec, 0)\<close>.\<close>

definition Unix :: "time \<Rightarrow> int" where
  "Unix t = t div Second"

definition time_Unix :: "int \<Rightarrow> time" where
  "time_Unix sec = sec * Second"

text \<open>A function of the program either panics or returns.\<close>

datatype 'a outcome = Panics string | Returns 'a

section \<open>Session data (data.go)\<close>

datatype Status = Unmodified | Modified | Destroyed

text \<open>
  The dynamic values an \<^verbatim>\<open>interface{}\<close> of the value map can hold: nil, the six types
  the typed accessors know, and any other type. A \<^verbatim>\<open>[]byte\<close> is \<open>None\<close> when it is the
  nil slice; a \<^verbatim>\<open>float64\<close> is its IEEE-754 bit pattern (no arithmetic is done on it).
\<close>

datatype val =
    VNil
  | VString string
  | VBool bool
  | VInt int
  | VFloat64 "64 word"
  | VBytes "byte list option"
  | VTime time
  | VOther nat

text \<open>
  The value map is an association list with distinct keys: \<open>map_of\<close> reads it,
  \<open>AList.update\<close> is \<^verbatim>\<open>m[k] = v\<close> and \<open>AList.delete\<close> is \<^verbatim>\<open>delete(m, k)\<close>.
\<close>

record sessionData =
  Deadline :: time
  status :: Status
  token :: string
  Values :: "(string \<times> val) list"

definition SetStatus :: "sessionData \<Rightarrow> Status \<Rightarrow> sessionData" where
  "SetStatus sd st = sd\<lparr>status := st\<rparr>"

definition newSessionData :: "time \<Rightarrow> duration \<Rightarrow> sessionData" where
  "newSessionData now lifetime =
     \<lparr>Deadline = now + lifetime, status = Unmodified, token = [], Values = []\<rparr>"

section \<open>The session manager and its environment\<close>

text \<open>
  The \<^verbatim>\<open>Store\<close> interface, over a store state \<open>'st\<close>. \<^verbatim>\<open>Find\<close> returns the triple
  \<^verbatim>\<open>(b, found, err)\<close> of the Go method.
\<close>

record 'st Store =
  Store_Find :: "string \<Rightarrow> 'st \<Rightarrow> (byte list \<times> bool \<times> error option) \<times> 'st"
  Store_Commit :: "string \<Rightarrow> byte list \<Rightarrow> time \<Rightarrow> 'st \<Rightarrow> error option \<times> 'st"
  Store_Delete :: "string \<Rightarrow> 'st \<Rightarrow> error option \<times> 'st"

record SessionCookie =
  Name :: string
  Domain_attr :: string
  HttpOnly :: bool
  Path :: string
  Persist :: bool
  SameSite :: int
  Secure :: bool

record 'st Session =
  IdleTimeout :: duration
  Lifetime :: duration
  Store :: "'st Store"
  Cookie :: SessionCookie
  contextKey :: string

text \<open>\<^verbatim>\<open>http.Cookie\<close>, with the fields the program sets.\<close>

record http_Cookie =
  c_Name :: string
  c_Value :: string
  c_Path :: string
  c_Domain :: string
  c_Expires :: time
  c_MaxAge :: int
  c_Secure :: bool
  c_HttpOnly :: bool
  c_SameSite :: int

text \<open>
  What the standard library does and the repository does not contain is a parameter:
  the gob codec on the exported fields of the session data, the serialisation of a
  cookie, and the rounding of an exact result to a \<^verbatim>\<open>float64\<close>.
\<close>

record platform =
  gob_Encode :: "time \<Rightarrow> (string \<times> val) list \<Rightarrow> error + byte list"
  gob_Decode :: "byte list \<Rightarrow> error + (time \<times> (string \<times> val) list)"
  cookie_String :: "http_Cookie \<Rightarrow> string"
  float64 :: "rat \<Rightarrow> rat"

text \<open>
  The outcome of one \<^verbatim>\<open>rand.Read\<close> on a buffer: an error, or the bytes it wrote, by
  index.
\<close>

datatype rand_outcome = RandErr error | RandBytes "nat \<Rightarrow> byte"

text \<open>
  The request context holds, under a key, a pointer to a session data record or some
  other value; the record a pointer refers to is kept at the pointer. The world is the
  key/value map of the request context, the state of the store and the response header.
\<close>

datatype ctxval = SessionPtr sessionData | OtherVal

record 'st world =
  ctx :: "string \<Rightarrow> ctxval option"
  store :: 'st
  header :: "string \<Rightarrow> string list"

text \<open>A write through the pointer to the session data of manager \<open>s\<close>.\<close>

definition put_sd :: "'st Session \<Rightarrow> sessionData \<Rightarrow> 'st world \<Rightarrow> 'st world" where
  "put_sd s sd w = w\<lparr>ctx := (ctx w)(contextKey s \<mapsto> SessionPtr sd)\<rparr>"

subsection \<open>Tokens\<close>

text \<open>\<^verbatim>\<open>base64.RawURLEncoding.EncodeToString\<close>: the URL alphabet, no padding.\<close>

definition encodeURL :: "nat \<Rightarrow> char" where
  "encodeURL i =
     ''ABCDEFGHIJKLMNOPQRSTUVWXYZabcdefghijklmnopqrstuvwxyz0123456789-_'' ! (i mod 64)"

fun EncodeToString :: "byte list \<Rightarrow> string" where
  "EncodeToString (a # b # c # rest) =
     (let v = unat a * 65536 + unat b * 256 + unat c
      in encodeURL (v div 262144) # encodeURL (v div 4096) # encodeURL (v div 64)
           # encodeURL v # EncodeToString rest)"
| "EncodeToString [a, b] =
     (let v = unat a * 65536 + unat b * 256
      in [encodeURL (v div 262144), encodeURL (v div 4096), encodeURL (v div 64)])"
| "EncodeToString [a] =
     (let v = unat a * 65536
      in [encodeURL (v div 262144), encodeURL (v div 4096)])"
| "EncodeToString [] = []"

definition generateToken :: "rand_outcome \<Rightarrow> error + string" where
  "generateToken rnd =
     (case rnd of
        RandErr err \<Rightarrow> Inl err
      | RandBytes b \<Rightarrow> Inr (EncodeToString (map b [0..<32])))"

subsection \<open>Resolving the session data\<close>

definition getSessionDataFromContext :: "'st Session \<Rightarrow> 'st world \<Rightarrow> sessionData outcome" where
  "getSessionDataFromContext s w =
     (case ctx w (contextKey s) of
        Some (SessionPtr sd) \<Rightarrow> Returns sd
      | _ \<Rightarrow> Panics ''scs: no session data in context'')"

definition encode :: "platform \<Rightarrow> sessionData \<Rightarrow> error + byte list" where
  "encode P sd = gob_Encode P (Deadline sd) (Values sd)"

text \<open>
  \<^verbatim>\<open>sd.decode(b)\<close> fills the exported fields of \<open>sd\<close> and leaves the others.
\<close>

definition decode :: "platform \<Rightarrow> sessionData \<Rightarrow> byte list \<Rightarrow> error + sessionData" where
  "decode P sd b =
     (case gob_Decode P b of
        Inl err \<Rightarrow> Inl err
      | Inr (d, vs) \<Rightarrow> Inr (sd\<lparr>Deadline := d, Values := vs\<rparr>))"

subsection \<open>Load, Commit, Destroy, RenewToken\<close>

definition Load ::
  "platform \<Rightarrow> 'st Session \<Rightarrow> time \<Rightarrow> string \<Rightarrow> 'st world \<Rightarrow> (error + sessionData) \<times> 'st world"
where
  "Load P s now tok w =
     (case ctx w (contextKey s) of
        Some (SessionPtr sd) \<Rightarrow> (Inr sd, w)
      | _ \<Rightarrow>
        if tok = [] then
          (let sd = newSessionData now (Lifetime s) in (Inr sd, put_sd s sd w))
        else
          (case Store_Find (Store s) tok (store w) of
             ((b, found, Some err), st) \<Rightarrow> (Inl err, w\<lparr>store := st\<rparr>)
           | ((b, found, None), st) \<Rightarrow>
               if \<not> found then
                 (let sd = newSessionData now (Lifetime s)
                  in (Inr sd, put_sd s sd (w\<lparr>store := st\<rparr>)))
               else
                 (case decode P \<lparr>Deadline = zero_time, status = Unmodified, token = tok,
                                  Values = []\<rparr> b of
                    Inl err \<Rightarrow> (Inl err, w\<lparr>store := st\<rparr>)
                  | Inr sd \<Rightarrow>
                      (let sd' = (if IdleTimeout s > 0 then sd\<lparr>status := Modified\<rparr> else sd)
                       in (Inr sd', put_sd s sd' (w\<lparr>store := st\<rparr>))))))"

definition Commit ::
  "platform \<Rightarrow> 'st Session \<Rightarrow> time \<Rightarrow> rand_outcome \<Rightarrow> 'st world
    \<Rightarrow> ((string \<times> time \<times> error option) \<times> 'st world) outcome"
where
  "Commit P s now rnd w =
     (case getSessionDataFromContext s w of
        Panics m \<Rightarrow> Panics m
      | Returns sd \<Rightarrow>
        (case (if token sd = [] then generateToken rnd else Inr (token sd)) of
           Inl err \<Rightarrow> Returns (([], zero_time, Some err), put_sd s (sd\<lparr>token := []\<rparr>) w)
         | Inr t \<Rightarrow>
           (let sd1 = sd\<lparr>token := t\<rparr>; w1 = put_sd s sd1 w in
            case encode P sd1 of
              Inl err \<Rightarrow> Returns (([], zero_time, Some err), w1)
            | Inr b \<Rightarrow>
              (let expiry =
                     (if IdleTimeout s > 0 then
                        (let ie = now + IdleTimeout s in
                         if ie < Deadline sd1 then ie else Deadline sd1)
                      else Deadline sd1)
               in case Store_Commit (Store s) (token sd1) b expiry (store w1) of
                    (Some err, st) \<Rightarrow> Returns (([], zero_time, Some err), w1\<lparr>store := st\<rparr>)
                  | (None, st) \<Rightarrow> Returns ((token sd1, expiry, None), w1\<lparr>store := st\<rparr>)))))"

text \<open>The loop of \<^verbatim>\<open>Destroy\<close> that deletes every key of the value map, key by key.\<close>

fun delete_each :: "string list \<Rightarrow> (string \<times> val) list \<Rightarrow> (string \<times> val) list" where
  "delete_each [] vs = vs"
| "delete_each (k # ks) vs = delete_each ks (AList.delete k vs)"

definition Destroy ::
  "'st Session \<Rightarrow> time \<Rightarrow> 'st world \<Rightarrow> (error option \<times> 'st world) outcome"
where
  "Destroy s now w =
     (case getSessionDataFromContext s w of
        Panics m \<Rightarrow> Panics m
      | Returns sd \<Rightarrow>
        (case Store_Delete (Store s) (token sd) (store w) of
           (Some err, st) \<Rightarrow> Returns (Some err, w\<lparr>store := st\<rparr>)
         | (None, st) \<Rightarrow>
             Returns (None,
               put_sd s (sd\<lparr>status := Destroyed, token := [], Deadline := now + Lifetime s,
                            Values := delete_each (map fst (Values sd)) (Values sd)\<rparr>)
                 (w\<lparr>store := st\<rparr>))))"

definition RenewToken ::
  "'st Session \<Rightarrow> time \<Rightarrow> rand_outcome \<Rightarrow> 'st world \<Rightarrow> (error option \<times> 'st world) outcome"
where
  "RenewToken s now rnd w =
     (case getSessionDataFromContext s w of
        Panics m \<Rightarrow> Panics m
      | Returns sd \<Rightarrow>
        (case Store_Delete (Store s) (token sd) (store w) of
           (Some err, st) \<Rightarrow> Returns (Some err, w\<lparr>store := st\<rparr>)
         | (None, st) \<Rightarrow>
           (case generateToken rnd of
              Inl err \<Rightarrow> Returns (Some err, w\<lparr>store := st\<rparr>)
            | Inr newToken \<Rightarrow>
                Returns (None,
                  put_sd s (sd\<lparr>token := newToken, Deadline := now + Lifetime s,
                               status := Modified\<rparr>)
                    (w\<lparr>store := st\<rparr>)))))"

subsection \<open>Put, Get, Pop, Remove, Exists, Keys, Status, Token\<close>

definition Put :: "'st Session \<Rightarrow> string \<Rightarrow> val \<Rightarrow> 'st world \<Rightarrow> 'st world outcome" where
  "Put s key v w =
     (case getSessionDataFromContext s w of
        Panics m \<Rightarrow> Panics m
      | Returns sd \<Rightarrow>
          Returns (put_sd s (sd\<lparr>Values := AList.update key v (Values sd), status := Modified\<rparr>) w))"

text \<open>Reading a key that the map does not hold gives the nil interface value.\<close>

definition Get :: "'st Session \<Rightarrow> string \<Rightarrow> 'st world \<Rightarrow> val outcome" where
  "Get s key w =
     (case getSessionDataFromContext s w of
        Panics m \<Rightarrow> Panics m
      | Returns sd \<Rightarrow>
          Returns (case map_of (Values sd) key of None \<Rightarrow> VNil | Some v \<Rightarrow> v))"

definition Pop :: "'st Session \<Rightarrow> string \<Rightarrow> 'st world \<Rightarrow> (val \<times> 'st world) outcome" where
  "Pop s key w =
     (case getSessionDataFromContext s w of
        Panics m \<Rightarrow> Panics m
      | Returns sd \<Rightarrow>
        (case map_of (Values sd) key of
           None \<Rightarrow> Returns (VNil, w)
         | Some v \<Rightarrow>
             Returns (v, put_sd s (sd\<lparr>Values := AList.delete key (Values sd),
                                       status := Modified\<rparr>) w)))"

definition Remove :: "'st Session \<Rightarrow> string \<Rightarrow> 'st world \<Rightarrow> 'st world outcome" where
  "Remove s key w =
     (case getSessionDataFromContext s w of
        Panics m \<Rightarrow> Panics m
      | Returns sd \<Rightarrow>
        (case map_of (Values sd) key of
           None \<Rightarrow> Returns w
         | Some v \<Rightarrow>
             Returns (put_sd s (sd\<lparr>Values := AList.delete key (Values sd),
                                   status := Modified\<rparr>) w)))"

definition Exists :: "'st Session \<Rightarrow> string \<Rightarrow> 'st world \<Rightarrow> bool outcome" where
  "Exists s key w =
     (case getSessionDataFromContext s w of
        Panics m \<Rightarrow> Panics m
      | Returns sd \<Rightarrow> Returns (map_of (Values sd) key \<noteq> None))"

definition Keys :: "'st Session \<Rightarrow> 'st world \<Rightarrow> string list outcome" where
  "Keys s w =
     (case getSessionDataFromContext s w of
        Panics m \<Rightarrow> Panics m
      | Returns sd \<Rightarrow> Returns (sort (map fst (Values sd))))"

definition Status_of :: "'st Session \<Rightarrow> 'st world \<Rightarrow> Status outcome" where
  "Status_of s w =
     (case getSessionDataFromContext s w of
        Panics m \<Rightarrow> Panics m
      | Returns sd \<Rightarrow> Returns (status sd))"

definition Token :: "'st Session \<Rightarrow> 'st world \<Rightarrow> string outcome" where
  "Token s w =
     (case getSessionDataFromContext s w of
        Panics m \<Rightarrow> Panics m
      | Returns sd \<Rightarrow> Returns (token sd))"

subsection \<open>Typed accessors\<close>

text \<open>
  The type assertions \<^verbatim>\<open>val.(T)\<close> of the typed accessors, with the zero value of
  \<open>T\<close> where the assertion fails.
\<close>

definition as_string :: "val \<Rightarrow> string" where
  "as_string v = (case v of VString str \<Rightarrow> str | _ \<Rightarrow> [])"

definition as_bool :: "val \<Rightarrow> bool" where
  "as_bool v = (case v of VBool b \<Rightarrow> b | _ \<Rightarrow> False)"

definition as_int :: "val \<Rightarrow> int" where
  "as_int v = (case v of VInt i \<Rightarrow> i | _ \<Rightarrow> 0)"

definition as_float64 :: "val \<Rightarrow> 64 word" where
  "as_float64 v = (case v of VFloat64 f \<Rightarrow> f | _ \<Rightarrow> 0)"

definition as_bytes :: "val \<Rightarrow> byte list option" where
  "as_bytes v = (case v of VBytes b \<Rightarrow> b | _ \<Rightarrow> None)"

definition as_time :: "val \<Rightarrow> time" where
  "as_time v = (case v of VTime t \<Rightarrow> t | _ \<Rightarrow> zero_time)"

definition get_as :: "(val \<Rightarrow> 'a) \<Rightarrow> 'st Session \<Rightarrow> string \<Rightarrow> 'st world \<Rightarrow> 'a outcome" where
  "get_as conv s key w =
     (case Get s key w of Panics m \<Rightarrow> Panics m | Returns v \<Rightarrow> Returns (conv v))"

definition pop_as ::
  "(val \<Rightarrow> 'a) \<Rightarrow> 'st Session \<Rightarrow> string \<Rightarrow> 'st world \<Rightarrow> ('a \<times> 'st world) outcome"
where
  "pop_as conv s key w =
     (case Pop s key w of Panics m \<Rightarrow> Panics m | Returns (v, w') \<Rightarrow> Returns (conv v, w'))"

definition GetString :: "'st Session \<Rightarrow> string \<Rightarrow> 'st world \<Rightarrow> string outcome" where
  "GetString = get_as as_string"

definition GetBool :: "'st Session \<Rightarrow> string \<Rightarrow> 'st world \<Rightarrow> bool outcome" where
  "GetBool = get_as as_bool"

definition GetInt :: "'st Session \<Rightarrow> string \<Rightarrow> 'st world \<Rightarrow> int outcome" where
  "GetInt = get_as as_int"

definition GetFloat :: "'st Session \<Rightarrow> string \<Rightarrow> 'st world \<Rightarrow> 64 word outcome" where
  "GetFloat = get_as as_float64"

definition GetBytes :: "'st Session \<Rightarrow> string \<Rightarrow> 'st world \<Rightarrow> byte list option outcome" where
  "GetBytes = get_as as_bytes"

definition GetTime :: "'st Session \<Rightarrow> string \<Rightarrow> 'st world \<Rightarrow> time outcome" where
  "GetTime = get_as as_time"

definition PopString :: "'st Session \<Rightarrow> string \<Rightarrow> 'st world \<Rightarrow> (string \<times> 'st world) outcome" where
  "PopString = pop_as as_string"

definition PopBool :: "'st Session \<Rightarrow> string \<Rightarrow> 'st world \<Rightarrow> (bool \<times> 'st world) outcome" where
  "PopBool = pop_as as_bool"

definition PopInt :: "'st Session \<Rightarrow> string \<Rightarrow> 'st world \<Rightarrow> (int \<times> 'st world) outcome" where
  "PopInt = pop_as as_int"

definition PopFloat :: "'st Session \<Rightarrow> string \<Rightarrow> 'st world \<Rightarrow> (64 word \<times> 'st world) outcome" where
  "PopFloat = pop_as as_float64"

definition PopBytes ::
  "'st Session \<Rightarrow> string \<Rightarrow> 'st world \<Rightarrow> (byte list option \<times> 'st world) outcome"
where
  "PopBytes = pop_as as_bytes"

definition PopTime :: "'st Session \<Rightarrow> string \<Rightarrow> 'st world \<Rightarrow> (time \<times> 'st world) outcome" where
  "PopTime = pop_as as_time"

section \<open>The session cookie\<close>

subsection \<open>The response header\<close>

text \<open>
  \<^verbatim>\<open>http.Header\<close> maps a key to the list of its values. \<^verbatim>\<open>Header.Add\<close> appends under
  the canonical form of the key (\<^verbatim>\<open>textproto.CanonicalMIMEHeaderKey\<close>: a key made of
  token bytes gets an upper-case first letter and upper-case letters after each hyphen,
  lower-case letters elsewhere; any other key is left as it is), while indexing the map
  reads the key as it is written.
\<close>

definition validHeaderFieldByte :: "char \<Rightarrow> bool" where
  "validHeaderFieldByte c =
     (c \<in> set ''!#$%&*+-.^_`|~0123456789abcdefghijklmnopqrstuvwxyzABCDEFGHIJKLMNOPQRSTUVWXYZ''
      \<or> of_char c = (39::nat))"

definition is_lower :: "char \<Rightarrow> bool" where
  "is_lower c = (97 \<le> (of_char c :: nat) \<and> (of_char c :: nat) \<le> 122)"

definition is_upper :: "char \<Rightarrow> bool" where
  "is_upper c = (65 \<le> (of_char c :: nat) \<and> (of_char c :: nat) \<le> 90)"

fun canonical :: "bool \<Rightarrow> string \<Rightarrow> string" where
  "canonical upper [] = []"
| "canonical upper (c # cs) =
     (let c' = (if upper \<and> is_lower c then char_of (of_char c - (32::nat))
                else if \<not> upper \<and> is_upper c then char_of (of_char c + (32::nat))
                else c)
      in c' # canonical (c' = CHR ''-'') cs)"

definition CanonicalMIMEHeaderKey :: "string \<Rightarrow> string" where
  "CanonicalMIMEHeaderKey k = (if list_all validHeaderFieldByte k then canonical True k else k)"

definition Header_Add :: "string \<Rightarrow> string \<Rightarrow> (string \<Rightarrow> string list) \<Rightarrow> (string \<Rightarrow> string list)" where
  "Header_Add key v h =
     h(CanonicalMIMEHeaderKey key := h (CanonicalMIMEHeaderKey key) @ [v])"

text \<open>The loop of \<^verbatim>\<open>AddHeaderIfMissing\<close>: is the value among those of the key?\<close>

fun has_value :: "string list \<Rightarrow> string \<Rightarrow> bool" where
  "has_value [] v = False"
| "has_value (h # hs) v = (if h = v then True else has_value hs v)"

definition AddHeaderIfMissing :: "string \<Rightarrow> string \<Rightarrow> 'st world \<Rightarrow> 'st world" where
  "AddHeaderIfMissing key v w =
     (if has_value (header w key) v then w
      else w\<lparr>header := Header_Add key v (header w)\<rparr>)"

subsection \<open>Writing the cookie\<close>

text \<open>
  \<^verbatim>\<open>time.Until(expiry)\<close> is \<^verbatim>\<open>expiry.Sub(time.Now())\<close>, which stops at the least and the
  greatest \<^verbatim>\<open>Duration\<close>.
\<close>

definition Until :: "time \<Rightarrow> time \<Rightarrow> duration" where
  "Until now expiry = max (- (2 ^ 63)) (min (2 ^ 63 - 1) (expiry - now))"

text \<open>
  \<^verbatim>\<open>Duration.Seconds\<close> is \<^verbatim>\<open>float64(sec) + float64(nsec)/1e9\<close> with \<^verbatim>\<open>sec = d / Second\<close>
  and \<^verbatim>\<open>nsec = d % Second\<close>, both truncating towards zero. The two conversions and the
  constant are exact (integers below \<open>2 ^ 53\<close>); the quotient and the sum are rounded.
\<close>

definition Seconds :: "platform \<Rightarrow> duration \<Rightarrow> rat" where
  "Seconds P d =
     float64 P (of_int (d sdiv Second) + float64 P (of_int (d smod Second) / 1000000000))"

text \<open>The conversion \<^verbatim>\<open>int(x)\<close> of a \<^verbatim>\<open>float64\<close> drops the fraction.\<close>

definition to_int :: "rat \<Rightarrow> int" where
  "to_int x = (if 0 \<le> x then \<lfloor>x\<rfloor> else \<lceil>x\<rceil>)"

text \<open>The cookie that \<^verbatim>\<open>WriteSessionCookie\<close> builds before it serialises it.\<close>

definition session_cookie ::
  "platform \<Rightarrow> 'st Session \<Rightarrow> time \<Rightarrow> string \<Rightarrow> time \<Rightarrow> http_Cookie"
where
  "session_cookie P s now tok expiry =
     (let cookie = \<lparr>c_Name = Name (Cookie s), c_Value = tok, c_Path = Path (Cookie s),
                     c_Domain = Domain_attr (Cookie s), c_Expires = zero_time, c_MaxAge = 0,
                     c_Secure = Secure (Cookie s), c_HttpOnly = HttpOnly (Cookie s),
                     c_SameSite = SameSite (Cookie s)\<rparr>
      in if IsZero expiry then
           cookie\<lparr>c_Expires := time_Unix 1, c_MaxAge := - 1\<rparr>
         else if Persist (Cookie s) then
           cookie\<lparr>c_Expires := time_Unix (Unix expiry + 1),
                   c_MaxAge := to_int (float64 P (Seconds P (Until now expiry) + 1))\<rparr>
         else cookie)"

definition WriteSessionCookie ::
  "platform \<Rightarrow> 'st Session \<Rightarrow> time \<Rightarrow> string \<Rightarrow> time \<Rightarrow> 'st world \<Rightarrow> 'st world"
where
  \<open>WriteSessionCookie P s now tok expiry w =
     AddHeaderIfMissing ''Vary'' ''Cookie''
       (AddHeaderIfMissing ''Cache-Control'' ''no-cache="Set-Cookie"''
          (w\<lparr>header := Header_Add ''Set-Cookie''
                 (cookie_String P (session_cookie P s now tok expiry)) (header w)\<rparr>))\<close>

section \<open>The middleware (SessionsWithConfig)\<close>

text \<open>
  The handler that \<^verbatim>\<open>SessionsWithConfig\<close> returns for a handler \<open>next\<close>. The skipper
  and the hooks \<^verbatim>\<open>LoadCheck\<close> and \<^verbatim>\<open>SaveCheck\<close> of the configuration are functions on
  the state \<open>'c\<close> of the request; a hook returns an error or none.
\<close>

definition SessionsWithConfig ::
  "('c \<Rightarrow> bool \<times> 'c) \<Rightarrow> ('c \<Rightarrow> (error option \<times> 'c) outcome)
    \<Rightarrow> ('c \<Rightarrow> (error option \<times> 'c) outcome) \<Rightarrow> ('c \<Rightarrow> (error option \<times> 'c) outcome)
    \<Rightarrow> 'c \<Rightarrow> (error option \<times> 'c) outcome"
where
  "SessionsWithConfig Skipper LoadCheck SaveCheck next c =
     (case Skipper c of
        (True, c0) \<Rightarrow> next c0
      | (False, c0) \<Rightarrow>
        (case LoadCheck c0 of
           Panics m \<Rightarrow> Panics m
         | Returns (Some err, c1) \<Rightarrow>
             Returns (Some (''could not load the session in SessionsWithConfig; '' @ err), c1)
         | Returns (None, c1) \<Rightarrow>
           (case SaveCheck c1 of
              Panics m \<Rightarrow> Panics m
            | Returns (Some err, c2) \<Rightarrow>
                Returns (Some (''could not save the session in SessionsWithConfig; '' @ err), c2)
            | Returns (None, c2) \<Rightarrow> next c2)))"

text \<open>A number of calls of \<^verbatim>\<open>WriteSessionCookie\<close> on one response, by any managers.\<close>

fun write_cookies ::
  "platform \<Rightarrow> ('st Session \<times> time \<times> string \<times> time) list \<Rightarrow> 'st world \<Rightarrow> 'st world"
where
  "write_cookies P [] w = w"
| "write_cookies P ((s, now, tok, expiry) # calls) w =
     write_cookies P calls (WriteSessionCookie P s now tok expiry w)"

section \<open>Sequences of manager operations\<close>

text \<open>
  The operations of a manager on the request, with the clock readings and the outcomes of
  the random source they consume. The typed accessors act on the state as \<open>Get\<close> and
  \<open>Pop\<close> do.
\<close>

datatype op =
    OpLoad time string
  | OpCommit time rand_outcome
  | OpDestroy time
  | OpRenewToken time rand_outcome
  | OpPut string val
  | OpPop string
  | OpRemove string
  | OpGet string
  | OpExists string
  | OpKeys
  | OpStatus
  | OpToken

definition after :: "'a outcome \<Rightarrow> ('a \<Rightarrow> 'b) \<Rightarrow> 'b outcome" where
  "after r f = (case r of Panics m \<Rightarrow> Panics m | Returns x \<Rightarrow> Returns (f x))"

fun apply_op :: "platform \<Rightarrow> 'st Session \<Rightarrow> op \<Rightarrow> 'st world \<Rightarrow> 'st world outcome" where
  "apply_op P s (OpLoad now tok) w = Returns (snd (Load P s now tok w))"
| "apply_op P s (OpCommit now rnd) w = after (Commit P s now rnd w) snd"
| "apply_op P s (OpDestroy now) w = after (Destroy s now w) snd"
| "apply_op P s (OpRenewToken now rnd) w = after (RenewToken s now rnd w) snd"
| "apply_op P s (OpPut key v) w = Put s key v w"
| "apply_op P s (OpPop key) w = after (Pop s key w) snd"
| "apply_op P s (OpRemove key) w = Remove s key w"
| "apply_op P s (OpGet key) w = after (Get s key w) (\<lambda>_. w)"
| "apply_op P s (OpExists key) w = after (Exists s key w) (\<lambda>_. w)"
| "apply_op P s OpKeys w = after (Keys s w) (\<lambda>_. w)"
| "apply_op P s OpStatus w = after (Status_of s w) (\<lambda>_. w)"
| "apply_op P s OpToken w = after (Token s w) (\<lambda>_. w)"

fun run_ops :: "platform \<Rightarrow> 'st Session \<Rightarrow> op list \<Rightarrow> 'st world \<Rightarrow> 'st world outcome" where
  "run_ops P s [] w = Returns w"
| "run_ops P s (x # xs) w =
     (case apply_op P s x w of Panics m \<Rightarrow> Panics m | Returns w' \<Rightarrow> run_ops P s xs w')"

text \<open>The session data of manager \<open>s\<close> in the world an operation returned.\<close>

definition session_of :: "'st Session \<Rightarrow> 'st world outcome \<Rightarrow> sessionData option" where
  "session_of s r =
     (case r of
        Panics m \<Rightarrow> None
      | Returns w \<Rightarrow> (case ctx w (contextKey s) of Some (SessionPtr sd) \<Rightarrow> Some sd | _ \<Rightarrow> None))"

text \<open>The invariant of a destroyed record: no token and no values.\<close>

definition destroyed_inv :: "'st Session \<Rightarrow> 'st world \<Rightarrow> bool" where
  "destroyed_inv s w =
     (case ctx w (contextKey s) of
        Some (SessionPtr sd) \<Rightarrow> status sd = Destroyed \<longrightarrow> token sd = [] \<and> Values sd = []
      | _ \<Rightarrow> True)"

text \<open>No \<open>Commit\<close> of the sequence is applied to a record whose status is Destroyed.\<close>

fun commits_live :: "platform \<Rightarrow> 'st Session \<Rightarrow> op list \<Rightarrow> 'st world \<Rightarrow> bool" where
  "commits_live P s [] w = True"
| "commits_live P s (x # xs) w =
     ((case x of OpCommit now rnd \<Rightarrow> Status_of s w \<noteq> Returns Destroyed | _ \<Rightarrow> True)
      \<and> (case apply_op P s x w of Panics m \<Rightarrow> True | Returns w' \<Rightarrow> commits_live P s xs w'))"

section \<open>Concrete instances\<close>

text \<open>
  A store whose state is an association list from token to payload and expiry; its
  operations never fail and it keeps every entry.
\<close>

definition list_store :: "(string \<times> byte list \<times> time) list Store" where
  "list_store =
     \<lparr>Store_Find = (\<lambda>t st. (case map_of st t of
                                None \<Rightarrow> (([], False, None), st)
                              | Some (b, e) \<Rightarrow> ((b, True, None), st))),
      Store_Commit = (\<lambda>t b e st. (None, AList.update t (b, e) st)),
      Store_Delete = (\<lambda>t st. (None, AList.delete t st))\<rparr>"

text \<open>
  A platform for the instances: the codec refuses a value of a type other than the
  built-in ones (a type that was not registered), writes the number of values as one
  byte and reads only the payload of no values; a cookie is serialised as its value, and
  the \<^verbatim>\<open>float64\<close> results are exact.
\<close>

definition plain_platform :: platform where
  "plain_platform =
     \<lparr>gob_Encode = (\<lambda>d vs. if list_ex (\<lambda>kv. case snd kv of VOther n \<Rightarrow> True | _ \<Rightarrow> False) vs
                            then Inl ''gob: type not registered for interface''
                            else Inr [of_nat (length vs)]),
      gob_Decode = (\<lambda>b. if b = [0] then Inr (0, []) else Inl ''gob: unexpected payload''),
      cookie_String = c_Value,
      float64 = (\<lambda>x. x)\<rparr>"

text \<open>
  \<^verbatim>\<open>NewSession\<close>, for a given store and context key (the repository takes the store
  from its memstore package and the key from a process-wide counter).
\<close>

definition NewSession :: "'st Store \<Rightarrow> string \<Rightarrow> 'st Session" where
  "NewSession st key =
     \<lparr>IdleTimeout = 0, Lifetime = 24 * 3600 * Second, Store = st,
      Cookie = \<lparr>Name = ''session'', Domain_attr = [], HttpOnly = True, Path = ''/'',
                 Persist = True, SameSite = 2, Secure = False\<rparr>,
      contextKey = key\<rparr>"

definition empty_world :: "'st \<Rightarrow> 'st world" where
  "empty_world st = \<lparr>ctx = Map.empty, store = st, header = (\<lambda>k. [])\<rparr>"

text \<open>The default manager over the list store, the same with an idle timeout of twenty
  minutes, and a session record with a token and one value.\<close>

definition demo_session :: "(string \<times> byte list \<times> time) list Session" where
  "demo_session = NewSession list_store ''session.1''"

definition idle_session :: "(string \<times> byte list \<times> time) list Session" where
  "idle_session = demo_session\<lparr>IdleTimeout := 1200 * Second\<rparr>"

definition alice :: sessionData where
  "alice = \<lparr>Deadline = 86400 * Second, status = Modified, token = ''abc'',
            Values = [(''user'', VString ''alice'')]\<rparr>"

text \<open>
  A skipper and hooks for the middleware that record their call in a log, the state of
  the request being the log; a hook returns the given error or none.
\<close>

definition log_skipper :: "bool \<Rightarrow> string list \<Rightarrow> bool \<times> string list" where
  "log_skipper skip c = (skip, c @ [''Skipper''])"

definition log_hook ::
  "string \<Rightarrow> error option \<Rightarrow> string list \<Rightarrow> (error option \<times> string list) outcome"
where
  "log_hook name err c = Returns (err, c @ [name])"

section \<open>Auxiliary facts\<close>

lemma getSD_Returns:
  "getSessionDataFromContext s w = Returns sd \<longleftrightarrow> ctx w (contextKey s) = Some (SessionPtr sd)"
  by (auto simp: getSessionDataFromContext_def split: option.splits ctxval.splits)

lemma getSD_absent:
  "\<forall>sd. ctx w (contextKey s) \<noteq> Some (SessionPtr sd) \<Longrightarrow>
   getSessionDataFromContext s w = Panics ''scs: no session data in context''"
  by (auto simp: getSessionDataFromContext_def split: option.splits ctxval.splits)

lemma getSD_put_sd [simp]: "getSessionDataFromContext s (put_sd s sd w) = Returns sd"
  by (simp add: getSessionDataFromContext_def put_sd_def)

lemma store_put_sd [simp]: "store (put_sd s sd w) = store w"
  by (simp add: put_sd_def)

lemma header_put_sd [simp]: "header (put_sd s sd w) = header w"
  by (simp add: put_sd_def)

lemma put_sd_put_sd [simp]: "put_sd s sd (put_sd s sd' w) = put_sd s sd w"
  by (simp add: put_sd_def)

lemma getSD_store_update [simp]:
  "getSessionDataFromContext s (w\<lparr>store := st\<rparr>) = getSessionDataFromContext s w"
  by (simp add: getSessionDataFromContext_def)

lemma getSD_header_update [simp]:
  "getSessionDataFromContext s (w\<lparr>header := h\<rparr>) = getSessionDataFromContext s w"
  by (simp add: getSessionDataFromContext_def)

lemma getSD_Store_update [simp]:
  "getSessionDataFromContext (s\<lparr>Store := x\<rparr>) w = getSessionDataFromContext s w"
  by (simp add: getSessionDataFromContext_def)

lemma put_sd_Store_update [simp]: "put_sd (s\<lparr>Store := x\<rparr>) sd w = put_sd s sd w"
  by (simp add: put_sd_def)

lemma upt_32:
  "[0..<32] = [0, 1, 2, 3, 4, 5, 6, 7, 8, 9, 10, 11, 12, 13, 14, 15, 16, 17, 18, 19, 20, 21,
               22, 23, 24, 25, 26, 27, 28, 29, 30, 31 :: nat]"
  by (simp add: upt_conv_Cons)

lemma token_of_zero_bytes:
  "generateToken (RandBytes (\<lambda>i. 0)) = Inr ''AAAAAAAAAAAAAAAAAAAAAAAAAAAAAAAAAAAAAAAAAAA''"
  by (simp add: generateToken_def encodeURL_def Let_def upt_32)

lemma length_EncodeToString: "length (EncodeToString bs) = (4 * length bs + 2) div 3"
  by (induction bs rule: EncodeToString.induct) (simp_all add: Let_def)

lemma generateToken_length: "generateToken rnd = Inr t \<Longrightarrow> length t = 43"
  by (auto simp: generateToken_def length_EncodeToString split: rand_outcome.splits)

lemma delete_each_nil: "set (map fst vs) \<subseteq> set ks \<Longrightarrow> delete_each ks vs = []"
proof (induction ks arbitrary: vs)
  case Nil
  then show ?case by simp
next
  case (Cons k ks)
  have "set (map fst (AList.delete k vs)) \<subseteq> set ks"
    using Cons.prems by (auto simp: AList.delete_keys)
  then show ?case using Cons.IH by simp
qed

lemma delete_each_all [simp]: "delete_each (map fst vs) vs = []"
  by (rule delete_each_nil) simp

text \<open>\<open>Load\<close> on a context that holds no session data of the manager.\<close>

lemma Load_unloaded:
  assumes "\<forall>sd. ctx w (contextKey s) \<noteq> Some (SessionPtr sd)"
  shows "Load P s now tok w =
     (if tok = [] then
          (let sd = newSessionData now (Lifetime s) in (Inr sd, put_sd s sd w))
        else
          (case Store_Find (Store s) tok (store w) of
             ((b, found, Some err), st) \<Rightarrow> (Inl err, w\<lparr>store := st\<rparr>)
           | ((b, found, None), st) \<Rightarrow>
               if \<not> found then
                 (let sd = newSessionData now (Lifetime s)
                  in (Inr sd, put_sd s sd (w\<lparr>store := st\<rparr>)))
               else
                 (case decode P \<lparr>Deadline = zero_time, status = Unmodified, token = tok,
                                  Values = []\<rparr> b of
                    Inl err \<Rightarrow> (Inl err, w\<lparr>store := st\<rparr>)
                  | Inr sd \<Rightarrow>
                      (let sd' = (if IdleTimeout s > 0 then sd\<lparr>status := Modified\<rparr> else sd)
                       in (Inr sd', put_sd s sd' (w\<lparr>store := st\<rparr>))))))"
proof (cases "ctx w (contextKey s)")
  case None
  then show ?thesis by (simp add: Load_def)
next
  case (Some x)
  with assms show ?thesis by (cases x) (simp_all add: Load_def)
qed

lemmas accessor_defs =
  GetString_def GetBool_def GetInt_def GetFloat_def GetBytes_def GetTime_def
  PopString_def PopBool_def PopInt_def PopFloat_def PopBytes_def PopTime_def
  get_as_def pop_as_def

lemmas assertion_defs =
  as_string_def as_bool_def as_int_def as_float64_def as_bytes_def as_time_def

lemmas instance_defs =
  NewSession_def list_store_def plain_platform_def empty_world_def demo_session_def
  idle_session_def alice_def Second_def

lemma Pop_absent:
  "getSessionDataFromContext s w = Returns sd \<Longrightarrow> map_of (Values sd) key = None \<Longrightarrow>
   Pop s key w = Returns (VNil, w)"
  by (simp add: Pop_def)

lemma Pop_present:
  "getSessionDataFromContext s w = Returns sd \<Longrightarrow> map_of (Values sd) key = Some v \<Longrightarrow>
   Pop s key w =
     Returns (v, put_sd s (sd\<lparr>Values := AList.delete key (Values sd), status := Modified\<rparr>) w)"
  by (simp add: Pop_def)

section \<open>Operations without a loaded session\<close>

text \<open>
  Claim C8. Every manager operation that resolves the current session data (Commit,
  Destroy, Put, Get, Pop, Remove, Exists, Keys, RenewToken, Status, Token and the typed
  Get and Pop variants) panics, and so returns no value, when the request context holds
  no session data under the context key of the manager.
\<close>

theorem no_session_panics:
  assumes "\<forall>sd. ctx w (contextKey s) \<noteq> Some (SessionPtr sd)"
  shows "Commit P s now rnd w = Panics ''scs: no session data in context''
    \<and> Destroy s now w = Panics ''scs: no session data in context''
    \<and> Put s key v w = Panics ''scs: no session data in context''
    \<and> Get s key w = Panics ''scs: no session data in context''
    \<and> Pop s key w = Panics ''scs: no session data in context''
    \<and> Remove s key w = Panics ''scs: no session data in context''
    \<and> Exists s key w = Panics ''scs: no session data in context''
    \<and> Keys s w = Panics ''scs: no session data in context''
    \<and> RenewToken s now rnd w = Panics ''scs: no session data in context''
    \<and> Status_of s w = Panics ''scs: no session data in context''
    \<and> Token s w = Panics ''scs: no session data in context''
    \<and> GetString s key w = Panics ''scs: no session data in context''
    \<and> GetBool s key w = Panics ''scs: no session data in context''
    \<and> GetInt s key w = Panics ''scs: no session data in context''
    \<and> GetFloat s key w = Panics ''scs: no session data in context''
    \<and> GetBytes s key w = Panics ''scs: no session data in context''
    \<and> GetTime s key w = Panics ''scs: no session data in context''
    \<and> PopString s key w = Panics ''scs: no session data in context''
    \<and> PopBool s key w = Panics ''scs: no session data in context''
    \<and> PopInt s key w = Panics ''scs: no session data in context''
    \<and> PopFloat s key w = Panics ''scs: no session data in context''
    \<and> PopBytes s key w = Panics ''scs: no session data in context''
    \<and> PopTime s key w = Panics ''scs: no session data in context''"
proof -
  have p: "getSessionDataFromContext s w = Panics ''scs: no session data in context''"
    using assms by (rule getSD_absent)
  have g: "Get s key w = Panics ''scs: no session data in context''"
    by (simp add: Get_def p)
  have q: "Pop s key w = Panics ''scs: no session data in context''"
    by (simp add: Pop_def p)
  show ?thesis
    by (simp add: Commit_def Destroy_def Put_def Remove_def Exists_def Keys_def
        RenewToken_def Status_of_def Token_def accessor_defs p g q)
qed

theorem no_session_panics_witness:
  "(\<forall>sd. ctx (empty_world []) (contextKey (NewSession list_store ''session.1''))
           \<noteq> Some (SessionPtr sd))
   \<and> Put (NewSession list_store ''session.1'') ''user'' (VString ''alice'') (empty_world [])
       = Panics ''scs: no session data in context''
   \<and> PopTime (NewSession list_store ''session.1'') ''user'' (empty_world [])
       = Panics ''scs: no session data in context''"
proof -
  have h: "\<forall>sd. ctx (empty_world []) (contextKey (NewSession list_store ''session.1''))
             \<noteq> Some (SessionPtr sd)"
    by (simp add: empty_world_def)
  show ?thesis
    using h no_session_panics [OF h, of plain_platform 0 "RandErr []" "''user''" "VString ''alice''"]
    by blast
qed

section \<open>The typed Pop variants\<close>

text \<open>
  Claim C4, as the code has it. A typed Pop variant (PopString, PopBool, PopInt, PopFloat,
  PopBytes, PopTime) on a key that the value map does not hold returns the zero value of
  its type and leaves the session data as it is, status included. On a key that the map
  holds it deletes the key and sets the status to Modified, whatever the type of the
  stored value, and returns the stored value when it has the requested type and the zero
  value of that type otherwise.
\<close>

theorem typed_Pop_absent_or_present:
  assumes "getSessionDataFromContext s w = Returns sd"
  shows "(map_of (Values sd) key = None \<longrightarrow>
            PopString s key w = Returns ([], w) \<and> PopBool s key w = Returns (False, w)
          \<and> PopInt s key w = Returns (0, w) \<and> PopFloat s key w = Returns (0, w)
          \<and> PopBytes s key w = Returns (None, w) \<and> PopTime s key w = Returns (zero_time, w))
       \<and> (\<forall>v. map_of (Values sd) key = Some v \<longrightarrow>
            (let w' = put_sd s (sd\<lparr>Values := AList.delete key (Values sd),
                                     status := Modified\<rparr>) w
             in PopString s key w = Returns (case v of VString x \<Rightarrow> x | _ \<Rightarrow> [], w')
              \<and> PopBool s key w = Returns (case v of VBool x \<Rightarrow> x | _ \<Rightarrow> False, w')
              \<and> PopInt s key w = Returns (case v of VInt x \<Rightarrow> x | _ \<Rightarrow> 0, w')
              \<and> PopFloat s key w = Returns (case v of VFloat64 x \<Rightarrow> x | _ \<Rightarrow> 0, w')
              \<and> PopBytes s key w = Returns (case v of VBytes x \<Rightarrow> x | _ \<Rightarrow> None, w')
              \<and> PopTime s key w = Returns (case v of VTime x \<Rightarrow> x | _ \<Rightarrow> zero_time, w')
              \<and> Status_of s w' = Returns Modified
              \<and> Exists s key w' = Returns False))"
proof (intro conjI impI allI)
  assume a: "map_of (Values sd) key = None"
  note p = Pop_absent [OF assms a]
  show "PopString s key w = Returns ([], w)" by (simp add: accessor_defs p as_string_def)
  show "PopBool s key w = Returns (False, w)" by (simp add: accessor_defs p as_bool_def)
  show "PopInt s key w = Returns (0, w)" by (simp add: accessor_defs p as_int_def)
  show "PopFloat s key w = Returns (0, w)" by (simp add: accessor_defs p as_float64_def)
  show "PopBytes s key w = Returns (None, w)" by (simp add: accessor_defs p as_bytes_def)
  show "PopTime s key w = Returns (zero_time, w)" by (simp add: accessor_defs p as_time_def)
next
  fix v assume a: "map_of (Values sd) key = Some v"
  note p = Pop_present [OF assms a]
  show "let w' = put_sd s (sd\<lparr>Values := AList.delete key (Values sd), status := Modified\<rparr>) w
        in PopString s key w = Returns (case v of VString x \<Rightarrow> x | _ \<Rightarrow> [], w')
         \<and> PopBool s key w = Returns (case v of VBool x \<Rightarrow> x | _ \<Rightarrow> False, w')
         \<and> PopInt s key w = Returns (case v of VInt x \<Rightarrow> x | _ \<Rightarrow> 0, w')
         \<and> PopFloat s key w = Returns (case v of VFloat64 x \<Rightarrow> x | _ \<Rightarrow> 0, w')
         \<and> PopBytes s key w = Returns (case v of VBytes x \<Rightarrow> x | _ \<Rightarrow> None, w')
         \<and> PopTime s key w = Returns (case v of VTime x \<Rightarrow> x | _ \<Rightarrow> zero_time, w')
         \<and> Status_of s w' = Returns Modified
         \<and> Exists s key w' = Returns False"
    by (simp add: Let_def accessor_defs p assertion_defs Status_of_def Exists_def
        AList.delete_conv')
qed

theorem typed_Pop_absent_or_present_witness:
  "getSessionDataFromContext (NewSession list_store ''session.1'')
     (put_sd (NewSession list_store ''session.1'')
        \<lparr>Deadline = 0, status = Unmodified, token = ''t'', Values = [(''flash'', VInt 7)]\<rparr>
        (empty_world []))
     = Returns \<lparr>Deadline = 0, status = Unmodified, token = ''t'', Values = [(''flash'', VInt 7)]\<rparr>
   \<and> map_of [(''flash'', VInt 7)] ''flash'' = Some (VInt 7)
   \<and> map_of [(''flash'', VInt 7)] ''other'' = None
   \<and> PopInt (NewSession list_store ''session.1'') ''flash''
        (put_sd (NewSession list_store ''session.1'')
           \<lparr>Deadline = 0, status = Unmodified, token = ''t'', Values = [(''flash'', VInt 7)]\<rparr>
           (empty_world []))
      = Returns (7, put_sd (NewSession list_store ''session.1'')
           \<lparr>Deadline = 0, status = Modified, token = ''t'', Values = []\<rparr> (empty_world []))
   \<and> PopString (NewSession list_store ''session.1'') ''flash''
        (put_sd (NewSession list_store ''session.1'')
           \<lparr>Deadline = 0, status = Unmodified, token = ''t'', Values = [(''flash'', VInt 7)]\<rparr>
           (empty_world []))
      = Returns ([], put_sd (NewSession list_store ''session.1'')
           \<lparr>Deadline = 0, status = Modified, token = ''t'', Values = []\<rparr> (empty_world []))
   \<and> PopInt (NewSession list_store ''session.1'') ''other''
        (put_sd (NewSession list_store ''session.1'')
           \<lparr>Deadline = 0, status = Unmodified, token = ''t'', Values = [(''flash'', VInt 7)]\<rparr>
           (empty_world []))
      = Returns (0, put_sd (NewSession list_store ''session.1'')
           \<lparr>Deadline = 0, status = Unmodified, token = ''t'', Values = [(''flash'', VInt 7)]\<rparr>
           (empty_world []))"
proof -
  let ?s = "NewSession list_store ''session.1''"
  let ?sd = "\<lparr>Deadline = 0, status = Unmodified, token = ''t'', Values = [(''flash'', VInt 7)]\<rparr>"
  let ?w = "put_sd ?s ?sd (empty_world [])"
  have h: "getSessionDataFromContext ?s ?w = Returns ?sd" by simp
  have e: "put_sd ?s (?sd\<lparr>Values := [], status := Modified\<rparr>) ?w
           = put_sd ?s \<lparr>Deadline = 0, status = Modified, token = ''t'', Values = []\<rparr> (empty_world [])"
    by (simp add: put_sd_def)
  show ?thesis
    using h e typed_Pop_absent_or_present [OF h, of "''flash''"]
      typed_Pop_absent_or_present [OF h, of "''other''"]
    by (simp add: Let_def)
qed

theorem typed_Pop_absent_counterexample:
  "PopString (NewSession list_store ''session.1'') ''flash''
     (snd (Load plain_platform (NewSession list_store ''session.1'') 0 [] (empty_world [])))
   = Returns ([], snd (Load plain_platform (NewSession list_store ''session.1'') 0 [] (empty_world [])))
   \<and> Status_of (NewSession list_store ''session.1'')
       (snd (Load plain_platform (NewSession list_store ''session.1'') 0 [] (empty_world [])))
     = Returns Unmodified
   \<and> Unmodified \<noteq> Modified"
  by (simp add: Load_def accessor_defs Pop_def Status_of_def as_string_def newSessionData_def
      NewSession_def empty_world_def Let_def put_sd_def getSessionDataFromContext_def)

section \<open>Commit\<close>

text \<open>
  Claim C3. For a session data record present in the context, a successful Commit mints
  a token only if the current token is the empty string (a non-empty token is kept and
  the random source is not consulted), and the expiry it returns and passes to the
  Commit of the store is the earlier of the deadline and now + IdleTimeout when
  IdleTimeout is positive, and the deadline when IdleTimeout is zero.
\<close>

theorem Commit_token_and_expiry:
  assumes sd: "getSessionDataFromContext s w = Returns sd"
    and ok: "Commit P s now rnd w = Returns ((tok, expiry, None), w')"
  shows "(token sd \<noteq> [] \<longrightarrow>
            tok = token sd \<and> (\<forall>rnd'. Commit P s now rnd' w = Commit P s now rnd w))
       \<and> (token sd = [] \<longrightarrow> generateToken rnd = Inr tok)
       \<and> getSessionDataFromContext s w' = Returns (sd\<lparr>token := tok\<rparr>)
       \<and> (0 < IdleTimeout s \<longrightarrow> expiry = min (Deadline sd) (now + IdleTimeout s))
       \<and> (IdleTimeout s = 0 \<longrightarrow> expiry = Deadline sd)
       \<and> (\<exists>b. encode P (sd\<lparr>token := tok\<rparr>) = Inr b
              \<and> Store_Commit (Store s) tok b expiry (store w) = (None, store w'))"
  using ok
  by (auto simp: Commit_def sd Let_def min_def split: sum.splits prod.splits option.splits if_splits)


theorem Commit_token_and_expiry_witness:
  "getSessionDataFromContext idle_session (put_sd idle_session alice (empty_world [])) = Returns alice
   \<and> Commit plain_platform idle_session (1000 * Second) (RandErr ''no entropy'')
        (put_sd idle_session alice (empty_world []))
      = Returns ((''abc'', 2200 * Second, None),
                 put_sd idle_session alice (empty_world [(''abc'', [1], 2200 * Second)]))
   \<and> token alice \<noteq> [] \<and> 0 < IdleTimeout idle_session
   \<and> 2200 * Second = min (Deadline alice) (1000 * Second + IdleTimeout idle_session)
   \<and> getSessionDataFromContext demo_session
        (put_sd demo_session (newSessionData 0 (Lifetime demo_session)) (empty_world []))
      = Returns (newSessionData 0 (Lifetime demo_session))
   \<and> Commit plain_platform demo_session (1000 * Second) (RandBytes (\<lambda>i. 0))
        (put_sd demo_session (newSessionData 0 (Lifetime demo_session)) (empty_world []))
      = Returns ((''AAAAAAAAAAAAAAAAAAAAAAAAAAAAAAAAAAAAAAAAAAA'', 86400 * Second, None),
                 put_sd demo_session
                   ((newSessionData 0 (Lifetime demo_session))
                      \<lparr>token := ''AAAAAAAAAAAAAAAAAAAAAAAAAAAAAAAAAAAAAAAAAAA''\<rparr>)
                   (empty_world [(''AAAAAAAAAAAAAAAAAAAAAAAAAAAAAAAAAAAAAAAAAAA'', [0],
                                  86400 * Second)]))
   \<and> token (newSessionData 0 (Lifetime demo_session)) = [] \<and> IdleTimeout demo_session = 0
   \<and> generateToken (RandBytes (\<lambda>i. 0)) = Inr ''AAAAAAAAAAAAAAAAAAAAAAAAAAAAAAAAAAAAAAAAAAA''
   \<and> 86400 * Second = Deadline (newSessionData 0 (Lifetime demo_session))"
proof -
  let ?wa = "put_sd idle_session alice (empty_world [])"
  let ?fresh = "newSessionData 0 (Lifetime demo_session)"
  let ?wb = "put_sd demo_session ?fresh (empty_world [])"
  let ?t = "''AAAAAAAAAAAAAAAAAAAAAAAAAAAAAAAAAAAAAAAAAAA''"
  have a1: "getSessionDataFromContext idle_session ?wa = Returns alice" by simp
  have a2: "Commit plain_platform idle_session (1000 * Second) (RandErr ''no entropy'') ?wa
      = Returns ((''abc'', 2200 * Second, None),
                 put_sd idle_session alice (empty_world [(''abc'', [1], 2200 * Second)]))"
    by (simp add: Commit_def getSessionDataFromContext_def encode_def Let_def instance_defs
        put_sd_def)
  have a3: "token alice \<noteq> []" by (simp add: alice_def)
  have a4: "0 < IdleTimeout idle_session" by (simp add: instance_defs)
  have a5: "2200 * Second = min (Deadline alice) (1000 * Second + IdleTimeout idle_session)"
    using Commit_token_and_expiry [OF a1 a2] a4 by blast
  have b1: "getSessionDataFromContext demo_session ?wb = Returns ?fresh" by simp
  have b2: "Commit plain_platform demo_session (1000 * Second) (RandBytes (\<lambda>i. 0)) ?wb
      = Returns ((?t, 86400 * Second, None),
                 put_sd demo_session (?fresh\<lparr>token := ?t\<rparr>)
                   (empty_world [(?t, [0], 86400 * Second)]))"
    by (simp add: Commit_def getSessionDataFromContext_def token_of_zero_bytes encode_def
        Let_def instance_defs put_sd_def newSessionData_def)
  have b3: "token ?fresh = []" by (simp add: newSessionData_def)
  have b4: "IdleTimeout demo_session = 0" by (simp add: instance_defs)
  have b5: "generateToken (RandBytes (\<lambda>i. 0)) = Inr ?t"
    using Commit_token_and_expiry [OF b1 b2] b3 by blast
  have b6: "86400 * Second = Deadline ?fresh"
    using Commit_token_and_expiry [OF b1 b2] b4 by blast
  show ?thesis
    using a1 a2 a3 a4 a5 b1 b2 b3 b4 b5 b6 by blast
qed

text \<open>
  Claim C10. For a session data record present in the context, a Commit that fails
  because the token cannot be generated or because the record cannot be encoded returns
  the empty token, the zero time and the error; the Commit of the store is not invoked
  (the result is the same whatever that method is) and the store is as it was.
\<close>

theorem Commit_failure_before_store:
  assumes sd: "getSessionDataFromContext s w = Returns sd"
    and fail: "(token sd = [] \<and> generateToken rnd = Inl err)
             \<or> (\<exists>t. (if token sd = [] then generateToken rnd else Inr (token sd)) = Inr t
                    \<and> encode P (sd\<lparr>token := t\<rparr>) = Inl err)"
  shows "(\<exists>w'. Commit P s now rnd w = Returns (([], zero_time, Some err), w')
              \<and> store w' = store w)
       \<and> (\<forall>f. Commit P (s\<lparr>Store := (Store s)\<lparr>Store_Commit := f\<rparr>\<rparr>) now rnd w
               = Commit P s now rnd w)"
  using fail
  by (auto simp: Commit_def sd Let_def
      split: sum.splits prod.splits option.splits if_splits)

theorem Commit_failure_before_store_witness:
  "getSessionDataFromContext demo_session
     (put_sd demo_session (newSessionData 0 (Lifetime demo_session))
        (empty_world [(''abc'', [1], 5)]))
     = Returns (newSessionData 0 (Lifetime demo_session))
   \<and> token (newSessionData 0 (Lifetime demo_session)) = []
   \<and> generateToken (RandErr ''no entropy'') = Inl ''no entropy''
   \<and> Commit plain_platform demo_session 1000 (RandErr ''no entropy'')
        (put_sd demo_session (newSessionData 0 (Lifetime demo_session))
           (empty_world [(''abc'', [1], 5)]))
      = Returns (([], zero_time, Some ''no entropy''),
          put_sd demo_session (newSessionData 0 (Lifetime demo_session))
            (empty_world [(''abc'', [1], 5)]))
   \<and> getSessionDataFromContext demo_session
        (put_sd demo_session (alice\<lparr>Values := [(''cart'', VOther 1)]\<rparr>)
           (empty_world [(''abc'', [1], 5)]))
      = Returns (alice\<lparr>Values := [(''cart'', VOther 1)]\<rparr>)
   \<and> encode plain_platform (alice\<lparr>Values := [(''cart'', VOther 1)]\<rparr>)
      = Inl ''gob: type not registered for interface''
   \<and> Commit plain_platform
        (demo_session\<lparr>Store := (Store demo_session)
           \<lparr>Store_Commit := (\<lambda>t b e st. (Some ''store: disk full'', []))\<rparr>\<rparr>)
        1000 (RandErr ''no entropy'')
        (put_sd demo_session (alice\<lparr>Values := [(''cart'', VOther 1)]\<rparr>)
           (empty_world [(''abc'', [1], 5)]))
      = Returns (([], zero_time, Some ''gob: type not registered for interface''),
          put_sd demo_session (alice\<lparr>Values := [(''cart'', VOther 1)]\<rparr>)
            (empty_world [(''abc'', [1], 5)]))"
proof -
  let ?fresh = "newSessionData 0 (Lifetime demo_session)"
  let ?wa = "put_sd demo_session ?fresh (empty_world [(''abc'', [1], 5)])"
  let ?cart = "alice\<lparr>Values := [(''cart'', VOther 1)]\<rparr>"
  let ?wb = "put_sd demo_session ?cart (empty_world [(''abc'', [1], 5)])"
  have a1: "getSessionDataFromContext demo_session ?wa = Returns ?fresh" by simp
  have a2: "token ?fresh = []" by (simp add: newSessionData_def)
  have a3: "generateToken (RandErr ''no entropy'') = Inl ''no entropy''"
    by (simp add: generateToken_def)
  have a4: "Commit plain_platform demo_session 1000 (RandErr ''no entropy'') ?wa
      = Returns (([], zero_time, Some ''no entropy''), ?wa)"
    using Commit_failure_before_store [OF a1, of "RandErr ''no entropy''" "''no entropy''"
        plain_platform 1000] a2 a3
    by (auto simp: Commit_def a1 newSessionData_def)
  have b1: "getSessionDataFromContext demo_session ?wb = Returns ?cart" by simp
  have b2: "encode plain_platform ?cart = Inl ''gob: type not registered for interface''"
    by (simp add: encode_def plain_platform_def alice_def)
  have b3: "Commit plain_platform demo_session 1000 (RandErr ''no entropy'') ?wb
      = Returns (([], zero_time, Some ''gob: type not registered for interface''), ?wb)"
    by (simp add: Commit_def getSessionDataFromContext_def Let_def encode_def put_sd_def
        instance_defs)
  have b4: "(if token ?cart = [] then generateToken (RandErr ''no entropy'')
             else Inr (token ?cart)) = Inr ''abc''
          \<and> encode plain_platform (?cart\<lparr>token := ''abc''\<rparr>)
              = Inl ''gob: type not registered for interface''"
    by (simp add: encode_def plain_platform_def alice_def)
  then have "(token ?cart = [] \<and> generateToken (RandErr ''no entropy'')
                = Inl ''gob: type not registered for interface'')
      \<or> (\<exists>t. (if token ?cart = [] then generateToken (RandErr ''no entropy'')
                else Inr (token ?cart)) = Inr t
             \<and> encode plain_platform (?cart\<lparr>token := t\<rparr>)
                 = Inl ''gob: type not registered for interface'')"
    by blast
  from Commit_failure_before_store [OF b1 this, of 1000]
  have "Commit plain_platform
         (demo_session\<lparr>Store := (Store demo_session)
            \<lparr>Store_Commit := (\<lambda>t b e st. (Some ''store: disk full'', []))\<rparr>\<rparr>)
         1000 (RandErr ''no entropy'') ?wb
       = Commit plain_platform demo_session 1000 (RandErr ''no entropy'') ?wb"
    by blast
  with b3 have b5: "Commit plain_platform
         (demo_session\<lparr>Store := (Store demo_session)
            \<lparr>Store_Commit := (\<lambda>t b e st. (Some ''store: disk full'', []))\<rparr>\<rparr>)
         1000 (RandErr ''no entropy'') ?wb
       = Returns (([], zero_time, Some ''gob: type not registered for interface''), ?wb)"
    by simp
  show ?thesis using a1 a2 a3 a4 b1 b2 b5 by blast
qed

section \<open>RenewToken\<close>

text \<open>
  Claim C6. For a session data record present in the context, a successful RenewToken
  deletes the old token from the store, sets a freshly generated token, resets the
  deadline to now + Lifetime and sets the status to Modified; the value map is unchanged.
  The store is left as the deletion left it: RenewToken calls neither Commit nor Find of
  the store, so the new token is not written by it.
\<close>

theorem RenewToken_effect:
  assumes sd: "getSessionDataFromContext s w = Returns sd"
    and ok: "RenewToken s now rnd w = Returns (None, w')"
  shows "Store_Delete (Store s) (token sd) (store w) = (None, store w')
       \<and> (\<exists>t. generateToken rnd = Inr t
              \<and> getSessionDataFromContext s w'
                  = Returns (sd\<lparr>token := t, Deadline := now + Lifetime s, status := Modified\<rparr>))
       \<and> (\<forall>sd'. getSessionDataFromContext s w' = Returns sd' \<longrightarrow> Values sd' = Values sd)
       \<and> (\<forall>f g. RenewToken (s\<lparr>Store := (Store s)\<lparr>Store_Commit := f, Store_Find := g\<rparr>\<rparr>) now rnd w
               = RenewToken s now rnd w)"
  using ok
  by (auto simp: RenewToken_def sd Let_def
      split: sum.splits prod.splits option.splits if_splits)

theorem RenewToken_effect_witness:
  "getSessionDataFromContext demo_session
     (put_sd demo_session alice (empty_world [(''abc'', [1], 86400 * Second)]))
     = Returns alice
   \<and> RenewToken demo_session (1000 * Second) (RandBytes (\<lambda>i. 0))
       (put_sd demo_session alice (empty_world [(''abc'', [1], 86400 * Second)]))
     = Returns (None,
         put_sd demo_session
           (alice\<lparr>token := ''AAAAAAAAAAAAAAAAAAAAAAAAAAAAAAAAAAAAAAAAAAA'',
                   Deadline := 1000 * Second + Lifetime demo_session, status := Modified\<rparr>)
           (empty_world []))
   \<and> Store_Delete (Store demo_session) (token alice) [(''abc'', [1], 86400 * Second)] = (None, [])
   \<and> Values (alice\<lparr>token := ''AAAAAAAAAAAAAAAAAAAAAAAAAAAAAAAAAAAAAAAAAAA'',
                   Deadline := 1000 * Second + Lifetime demo_session, status := Modified\<rparr>)
      = Values alice"
proof -
  let ?w = "put_sd demo_session alice (empty_world [(''abc'', [1], 86400 * Second)])"
  let ?sd' = "alice\<lparr>token := ''AAAAAAAAAAAAAAAAAAAAAAAAAAAAAAAAAAAAAAAAAAA'',
                   Deadline := 1000 * Second + Lifetime demo_session, status := Modified\<rparr>"
  let ?w' = "put_sd demo_session ?sd' (empty_world [])"
  have h1: "getSessionDataFromContext demo_session ?w = Returns alice" by simp
  have h2: "RenewToken demo_session (1000 * Second) (RandBytes (\<lambda>i. 0)) ?w = Returns (None, ?w')"
    by (simp add: RenewToken_def getSessionDataFromContext_def token_of_zero_bytes put_sd_def
        instance_defs)
  have h3: "store ?w = [(''abc'', [1], 86400 * Second)]" "store ?w' = []"
    by (simp_all add: empty_world_def)
  have h4: "getSessionDataFromContext demo_session ?w' = Returns ?sd'" by simp
  from RenewToken_effect [OF h1 h2] h3
  have h5: "Store_Delete (Store demo_session) (token alice) [(''abc'', [1], 86400 * Second)]
            = (None, [])"
    by simp
  from RenewToken_effect [OF h1 h2] h4 have h6: "Values ?sd' = Values alice"
    by blast
  show ?thesis using h1 h2 h5 h6 by blast
qed

section \<open>Load\<close>

text \<open>
  Claim C7. On a context without session data of the manager, a Load with a non-empty
  token that the store finds, and whose payload does not decode, returns the decode
  error and no session data, and puts nothing in the context. A fresh session is what
  Load returns exactly when the token is empty or the store reports, without error, that
  it did not find the token.
\<close>

theorem Load_decode_error:
  assumes nosd: "\<forall>sd. ctx w (contextKey s) \<noteq> Some (SessionPtr sd)"
  shows "(tok \<noteq> [] \<longrightarrow> Store_Find (Store s) tok (store w) = ((b, True, None), st) \<longrightarrow>
            gob_Decode P b = Inl err \<longrightarrow>
            Load P s now tok w = (Inl err, w\<lparr>store := st\<rparr>))
       \<and> (fst (Load P s now tok w) = Inr (newSessionData now (Lifetime s)) \<longleftrightarrow>
            tok = [] \<or> (\<exists>b' st'. Store_Find (Store s) tok (store w) = ((b', False, None), st')))"
  by (auto simp: Load_unloaded [OF nosd] decode_def Let_def newSessionData_def
      split: sum.splits prod.splits option.splits if_splits)

theorem Load_decode_error_witness:
  "(\<forall>sd. ctx (empty_world [(''abc'', [7, 7], 86400 * Second)]) (contextKey demo_session)
            \<noteq> Some (SessionPtr sd))
   \<and> ''abc'' \<noteq> []
   \<and> Store_Find (Store demo_session) ''abc'' (store (empty_world [(''abc'', [7, 7], 86400 * Second)]))
       = (([7, 7], True, None), [(''abc'', [7, 7], 86400 * Second)])
   \<and> gob_Decode plain_platform [7, 7] = Inl ''gob: unexpected payload''
   \<and> Load plain_platform demo_session 0 ''abc'' (empty_world [(''abc'', [7, 7], 86400 * Second)])
       = (Inl ''gob: unexpected payload'', empty_world [(''abc'', [7, 7], 86400 * Second)])"
proof -
  let ?w = "empty_world [(''abc'', [7, 7], 86400 * Second)]"
  have h1: "\<forall>sd. ctx ?w (contextKey demo_session) \<noteq> Some (SessionPtr sd)"
    by (simp add: empty_world_def)
  have h2: "''abc'' \<noteq> []" by simp
  have h3: "Store_Find (Store demo_session) ''abc'' (store ?w)
       = (([7, 7], True, None), [(''abc'', [7, 7], 86400 * Second)])"
    by (simp add: instance_defs)
  have h4: "gob_Decode plain_platform [7, 7] = Inl ''gob: unexpected payload''"
    by (simp add: plain_platform_def)
  have h5: "?w\<lparr>store := [(''abc'', [7, 7], 86400 * Second)]\<rparr> = ?w"
    by (simp add: empty_world_def)
  from Load_decode_error [OF h1, of "''abc''" "[7, 7]" "[(''abc'', [7, 7], 86400 * Second)]"
      plain_platform "''gob: unexpected payload''" 0] h2 h3 h4 h5
  have h6: "Load plain_platform demo_session 0 ''abc'' ?w = (Inl ''gob: unexpected payload'', ?w)"
    by simp
  show ?thesis using h1 h2 h3 h4 h6 by blast
qed

section \<open>Destroy and the invariant of a destroyed record\<close>

lemma destroyed_inv_put_sd [simp]:
  "destroyed_inv s (put_sd s sd w) = (status sd = Destroyed \<longrightarrow> token sd = [] \<and> Values sd = [])"
  by (simp add: destroyed_inv_def put_sd_def)

lemma destroyed_inv_store_update [simp]:
  "destroyed_inv s (w\<lparr>store := st\<rparr>) = destroyed_inv s w"
  by (simp add: destroyed_inv_def)

lemma destroyed_inv_getSD:
  "getSessionDataFromContext s w = Returns sd \<Longrightarrow>
   destroyed_inv s w = (status sd = Destroyed \<longrightarrow> token sd = [] \<and> Values sd = [])"
  by (simp add: destroyed_inv_def getSD_Returns)

lemma destroyed_inv_absent:
  "\<forall>sd. ctx w (contextKey s) \<noteq> Some (SessionPtr sd) \<Longrightarrow> destroyed_inv s w"
  by (auto simp: destroyed_inv_def split: option.splits ctxval.splits)

lemma Load_destroyed_inv:
  assumes "destroyed_inv s w"
  shows "destroyed_inv s (snd (Load P s now tok w))"
proof (cases "\<exists>sd. ctx w (contextKey s) = Some (SessionPtr sd)")
  case True
  then show ?thesis using assms by (auto simp: Load_def)
next
  case False
  then have n: "\<forall>sd. ctx w (contextKey s) \<noteq> Some (SessionPtr sd)" by simp
  show ?thesis
    using assms
    by (auto simp: Load_unloaded [OF n] decode_def Let_def newSessionData_def
        split: sum.splits prod.splits option.splits if_splits)
qed

lemma apply_op_destroyed_inv:
  assumes inv: "destroyed_inv s w"
    and live: "case x of OpCommit now rnd \<Rightarrow> Status_of s w \<noteq> Returns Destroyed | _ \<Rightarrow> True"
    and step: "apply_op P s x w = Returns w'"
  shows "destroyed_inv s w'"
proof (cases "getSessionDataFromContext s w")
  case (Panics m)
  then show ?thesis
    using step inv
    by (cases x)
       (auto simp: after_def Commit_def Destroy_def RenewToken_def Put_def Pop_def Remove_def
          Get_def Exists_def Keys_def Status_of_def Token_def Load_destroyed_inv)
next
  case (Returns sd)
  note i = inv [unfolded destroyed_inv_getSD [OF Returns]]
  show ?thesis
  proof (cases x)
    case (OpLoad now tok)
    then show ?thesis using step inv by (auto simp: Load_destroyed_inv)
  next
    case (OpCommit now rnd)
    then have "status sd \<noteq> Destroyed" using live by (simp add: Status_of_def Returns)
    then show ?thesis
      using step OpCommit inv
      by (auto simp: after_def Commit_def Returns Let_def
          split: sum.splits prod.splits option.splits if_splits)
  next
    case (OpDestroy now)
    then show ?thesis
      using step i inv
      by (auto simp: after_def Destroy_def Returns split: prod.splits option.splits)
  next
    case (OpRenewToken now rnd)
    then show ?thesis
      using step i inv
      by (auto simp: after_def RenewToken_def Returns split: prod.splits option.splits sum.splits)
  next
    case (OpPut key v)
    then show ?thesis using step by (auto simp: Put_def Returns)
  next
    case (OpPop key)
    then show ?thesis
      using step i inv by (auto simp: after_def Pop_def Returns split: option.splits)
  next
    case (OpRemove key)
    then show ?thesis
      using step i inv by (auto simp: Remove_def Returns split: option.splits)
  next
    case (OpGet key)
    then show ?thesis using step inv by (auto simp: after_def Get_def Returns)
  next
    case (OpExists key)
    then show ?thesis using step inv by (auto simp: after_def Exists_def Returns)
  next
    case OpKeys
    then show ?thesis using step inv by (auto simp: after_def Keys_def Returns)
  next
    case OpStatus
    then show ?thesis using step inv by (auto simp: after_def Status_of_def Returns)
  next
    case OpToken
    then show ?thesis using step inv by (auto simp: after_def Token_def Returns)
  qed
qed

lemma run_ops_destroyed_inv:
  "destroyed_inv s w \<Longrightarrow> commits_live P s xs w \<Longrightarrow> run_ops P s xs w = Returns w' \<Longrightarrow>
   destroyed_inv s w'"
proof (induction xs arbitrary: w)
  case Nil
  then show ?case by simp
next
  case (Cons x xs)
  from Cons.prems(3) obtain w1 where s1: "apply_op P s x w = Returns w1"
    and r: "run_ops P s xs w1 = Returns w'"
    by (auto split: outcome.splits)
  from Cons.prems(2) s1 have l: "commits_live P s xs w1"
    and c: "case x of OpCommit now rnd \<Rightarrow> Status_of s w \<noteq> Returns Destroyed | _ \<Rightarrow> True"
    by simp_all
  from apply_op_destroyed_inv [OF Cons.prems(1) c s1] have "destroyed_inv s w1" .
  from Cons.IH [OF this l r] show ?case .
qed

text \<open>
  Claim C2, as the code has it. After a successful Destroy the session data has status
  Destroyed, the empty token, no values and the deadline now + Lifetime. On a request
  that starts without session data, every sequence of manager operations in which no
  Commit is applied to a record whose status is Destroyed keeps the invariant: status
  Destroyed implies that the token is empty and that there are no values.
\<close>

theorem Destroy_resets_record:
  "(\<forall>w'. Destroy s now w = Returns (None, w') \<longrightarrow>
       session_of s (Returns w')
         = Some \<lparr>Deadline = now + Lifetime s, status = Destroyed, token = [], Values = []\<rparr>)
   \<and> (\<forall>w'. (\<forall>sd. ctx w (contextKey s) \<noteq> Some (SessionPtr sd)) \<longrightarrow>
         commits_live P s xs w \<longrightarrow> run_ops P s xs w = Returns w' \<longrightarrow> destroyed_inv s w')"
proof (intro conjI allI impI)
  fix w' assume d: "Destroy s now w = Returns (None, w')"
  then obtain sd where "getSessionDataFromContext s w = Returns sd"
    by (cases "getSessionDataFromContext s w") (auto simp: Destroy_def)
  with d show "session_of s (Returns w')
         = Some \<lparr>Deadline = now + Lifetime s, status = Destroyed, token = [], Values = []\<rparr>"
    by (auto simp: Destroy_def session_of_def put_sd_def split: prod.splits option.splits)
next
  fix w'
  assume "\<forall>sd. ctx w (contextKey s) \<noteq> Some (SessionPtr sd)"
    and l: "commits_live P s xs w" and r: "run_ops P s xs w = Returns w'"
  then have "destroyed_inv s w" by (simp add: destroyed_inv_absent)
  from run_ops_destroyed_inv [OF this l r] show "destroyed_inv s w'" .
qed

text \<open>
  A Commit after a Destroy mints a token and leaves the status Destroyed.
\<close>

theorem Destroy_then_Commit_counterexample:
  "session_of demo_session
     (run_ops plain_platform demo_session
        [OpLoad 0 [], OpDestroy 0, OpCommit 0 (RandBytes (\<lambda>i. 0))] (empty_world []))
   = Some \<lparr>Deadline = 86400 * Second, status = Destroyed,
            token = ''AAAAAAAAAAAAAAAAAAAAAAAAAAAAAAAAAAAAAAAAAAA'', Values = []\<rparr>"
  by (simp add: session_of_def after_def Load_def Destroy_def Commit_def
      getSessionDataFromContext_def token_of_zero_bytes encode_def newSessionData_def
      put_sd_def Let_def instance_defs)

theorem Destroy_resets_record_witness:
  "Destroy demo_session (5 * Second)
     (put_sd demo_session alice (empty_world [(''abc'', [1], 86400 * Second)]))
     = Returns (None,
         put_sd demo_session
           \<lparr>Deadline = 5 * Second + Lifetime demo_session, status = Destroyed, token = [],
              Values = []\<rparr>
           (empty_world []))
   \<and> session_of demo_session
        (Returns (put_sd demo_session
           \<lparr>Deadline = 5 * Second + Lifetime demo_session, status = Destroyed, token = [],
              Values = []\<rparr>
           (empty_world [])))
      = Some \<lparr>Deadline = 5 * Second + Lifetime demo_session, status = Destroyed, token = [],
               Values = []\<rparr>
   \<and> (\<forall>sd. ctx (empty_world []) (contextKey demo_session) \<noteq> Some (SessionPtr sd))
   \<and> commits_live plain_platform demo_session
        [OpLoad 0 [], OpPut ''user'' (VString ''alice''), OpCommit 0 (RandBytes (\<lambda>i. 0)),
         OpDestroy (5 * Second), OpPop ''user'']
        (empty_world [])
   \<and> run_ops plain_platform demo_session
        [OpLoad 0 [], OpPut ''user'' (VString ''alice''), OpCommit 0 (RandBytes (\<lambda>i. 0)),
         OpDestroy (5 * Second), OpPop ''user'']
        (empty_world [])
      = Returns (put_sd demo_session
           \<lparr>Deadline = 5 * Second + Lifetime demo_session, status = Destroyed, token = [],
              Values = []\<rparr>
           (empty_world []))
   \<and> destroyed_inv demo_session
        (put_sd demo_session
           \<lparr>Deadline = 5 * Second + Lifetime demo_session, status = Destroyed, token = [],
              Values = []\<rparr>
           (empty_world []))"
proof -
  let ?w = "put_sd demo_session alice (empty_world [(''abc'', [1], 86400 * Second)])"
  let ?d = "\<lparr>Deadline = 5 * Second + Lifetime demo_session, status = Destroyed, token = [],
              Values = []\<rparr>"
  let ?w' = "put_sd demo_session ?d (empty_world [])"
  let ?ops = "[OpLoad 0 [], OpPut ''user'' (VString ''alice''), OpCommit 0 (RandBytes (\<lambda>i. 0)),
         OpDestroy (5 * Second), OpPop ''user'']"
  note T = Destroy_resets_record [of demo_session "5 * Second" ?w plain_platform ?ops]
  note U = Destroy_resets_record [of demo_session "5 * Second" "empty_world []" plain_platform ?ops]
  have h1: "Destroy demo_session (5 * Second) ?w = Returns (None, ?w')"
    by (simp add: Destroy_def getSessionDataFromContext_def put_sd_def instance_defs)
  from T h1 have h2: "session_of demo_session (Returns ?w') = Some ?d" by blast
  have h3: "\<forall>sd. ctx (empty_world []) (contextKey demo_session) \<noteq> Some (SessionPtr sd)"
    by (simp add: empty_world_def)
  have h4: "commits_live plain_platform demo_session ?ops (empty_world [])"
    by (simp add: after_def Load_def Destroy_def Commit_def Put_def Pop_def Status_of_def
      getSessionDataFromContext_def token_of_zero_bytes encode_def newSessionData_def
      put_sd_def Let_def instance_defs)
  have h5: "run_ops plain_platform demo_session ?ops (empty_world []) = Returns ?w'"
    by (simp add: after_def Load_def Destroy_def Commit_def Put_def Pop_def Status_of_def
      getSessionDataFromContext_def token_of_zero_bytes encode_def newSessionData_def
      put_sd_def Let_def instance_defs)
  from U h3 h4 h5 have h6: "destroyed_inv demo_session ?w'" by blast
  show ?thesis using h1 h2 h3 h4 h5 h6 by blast
qed

section \<open>The order of the middleware\<close>

text \<open>
  Claim C1, as the code has it. For a request that the skipper does not skip, the handler
  of SessionsWithConfig runs the skipper, then LoadCheck, then SaveCheck, and only then
  the handler next: SaveCheck works on the state that LoadCheck left, before the user
  handler runs, so what the user handler does is not seen by it. An error of LoadCheck
  or of SaveCheck is returned, wrapped, and nothing after it runs; a skipped request
  goes to next at once.
\<close>

theorem SessionsWithConfig_order:
  "(Skipper c = (True, c0) \<longrightarrow> SessionsWithConfig Skipper LoadCheck SaveCheck next c = next c0)
 \<and> (Skipper c = (False, c0) \<longrightarrow>
      (\<forall>m. LoadCheck c0 = Panics m \<longrightarrow>
         SessionsWithConfig Skipper LoadCheck SaveCheck next c = Panics m)
    \<and> (\<forall>err c1. LoadCheck c0 = Returns (Some err, c1) \<longrightarrow>
         SessionsWithConfig Skipper LoadCheck SaveCheck next c
           = Returns (Some (''could not load the session in SessionsWithConfig; '' @ err), c1))
    \<and> (\<forall>c1. LoadCheck c0 = Returns (None, c1) \<longrightarrow>
         (\<forall>m. SaveCheck c1 = Panics m \<longrightarrow>
            SessionsWithConfig Skipper LoadCheck SaveCheck next c = Panics m)
       \<and> (\<forall>err c2. SaveCheck c1 = Returns (Some err, c2) \<longrightarrow>
            SessionsWithConfig Skipper LoadCheck SaveCheck next c
              = Returns (Some (''could not save the session in SessionsWithConfig; '' @ err), c2))
       \<and> (\<forall>c2. SaveCheck c1 = Returns (None, c2) \<longrightarrow>
            SessionsWithConfig Skipper LoadCheck SaveCheck next c = next c2)))"
  by (simp add: SessionsWithConfig_def)

text \<open>
  With hooks that log their call, the log shows SaveCheck before the handler.
\<close>

theorem SessionsWithConfig_order_counterexample:
  "SessionsWithConfig (log_skipper False) (log_hook ''LoadCheck'' None)
     (log_hook ''SaveCheck'' None) (log_hook ''handler'' None) []
   = Returns (None, [''Skipper'', ''LoadCheck'', ''SaveCheck'', ''handler''])
   \<and> [''Skipper'', ''LoadCheck'', ''SaveCheck'', ''handler'']
       \<noteq> [''Skipper'', ''LoadCheck'', ''handler'', ''SaveCheck'']"
  by (simp add: SessionsWithConfig_def log_skipper_def log_hook_def)

theorem SessionsWithConfig_order_witness:
  "log_skipper True [] = (True, [''Skipper''])
   \<and> SessionsWithConfig (log_skipper True) (log_hook ''LoadCheck'' None)
        (log_hook ''SaveCheck'' None) (log_hook ''handler'' None) []
      = log_hook ''handler'' None [''Skipper'']
   \<and> log_skipper False [] = (False, [''Skipper''])
   \<and> SessionsWithConfig (log_skipper False) (\<lambda>c. Panics ''scs: no session data in context'')
        (log_hook ''SaveCheck'' None) (log_hook ''handler'' None) []
      = Panics ''scs: no session data in context''
   \<and> log_hook ''LoadCheck'' (Some ''store: connection refused'') [''Skipper'']
       = Returns (Some ''store: connection refused'', [''Skipper'', ''LoadCheck''])
   \<and> SessionsWithConfig (log_skipper False)
        (log_hook ''LoadCheck'' (Some ''store: connection refused''))
        (log_hook ''SaveCheck'' None) (log_hook ''handler'' None) []
      = Returns (Some ''could not load the session in SessionsWithConfig; store: connection refused'',
                 [''Skipper'', ''LoadCheck''])
   \<and> log_hook ''LoadCheck'' None [''Skipper''] = Returns (None, [''Skipper'', ''LoadCheck''])
   \<and> SessionsWithConfig (log_skipper False) (log_hook ''LoadCheck'' None)
        (\<lambda>c. Panics ''scs: no session data in context'') (log_hook ''handler'' None) []
      = Panics ''scs: no session data in context''
   \<and> log_hook ''SaveCheck'' (Some ''store: disk full'') [''Skipper'', ''LoadCheck'']
       = Returns (Some ''store: disk full'', [''Skipper'', ''LoadCheck'', ''SaveCheck''])
   \<and> SessionsWithConfig (log_skipper False) (log_hook ''LoadCheck'' None)
        (log_hook ''SaveCheck'' (Some ''store: disk full'')) (log_hook ''handler'' None) []
      = Returns (Some ''could not save the session in SessionsWithConfig; store: disk full'',
                 [''Skipper'', ''LoadCheck'', ''SaveCheck''])
   \<and> log_hook ''SaveCheck'' None [''Skipper'', ''LoadCheck'']
       = Returns (None, [''Skipper'', ''LoadCheck'', ''SaveCheck''])
   \<and> SessionsWithConfig (log_skipper False) (log_hook ''LoadCheck'' None)
        (log_hook ''SaveCheck'' None) (log_hook ''handler'' None) []
      = log_hook ''handler'' None [''Skipper'', ''LoadCheck'', ''SaveCheck'']"
proof -
  have k1: "log_skipper True [] = (True, [''Skipper''])"
    and k2: "log_skipper False [] = (False, [''Skipper''])"
    by (simp_all add: log_skipper_def)
  have l1: "log_hook ''LoadCheck'' (Some ''store: connection refused'') [''Skipper'']
       = Returns (Some ''store: connection refused'', [''Skipper'', ''LoadCheck''])"
    and l2: "log_hook ''LoadCheck'' None [''Skipper''] = Returns (None, [''Skipper'', ''LoadCheck''])"
    and s1: "log_hook ''SaveCheck'' (Some ''store: disk full'') [''Skipper'', ''LoadCheck'']
       = Returns (Some ''store: disk full'', [''Skipper'', ''LoadCheck'', ''SaveCheck''])"
    and s2: "log_hook ''SaveCheck'' None [''Skipper'', ''LoadCheck'']
       = Returns (None, [''Skipper'', ''LoadCheck'', ''SaveCheck''])"
    by (simp_all add: log_hook_def)
  have a: "SessionsWithConfig (log_skipper True) (log_hook ''LoadCheck'' None)
        (log_hook ''SaveCheck'' None) (log_hook ''handler'' None) []
      = log_hook ''handler'' None [''Skipper'']"
    using SessionsWithConfig_order [of "log_skipper True" "[]" "[''Skipper'']"
        "log_hook ''LoadCheck'' None" "log_hook ''SaveCheck'' None" "log_hook ''handler'' None"] k1
    by blast
  have b: "SessionsWithConfig (log_skipper False) (\<lambda>c. Panics ''scs: no session data in context'')
        (log_hook ''SaveCheck'' None) (log_hook ''handler'' None) []
      = Panics ''scs: no session data in context''"
    using SessionsWithConfig_order [of "log_skipper False" "[]" "[''Skipper'']"
        "\<lambda>c. Panics ''scs: no session data in context''" "log_hook ''SaveCheck'' None"
        "log_hook ''handler'' None"] k2
    by blast
  have c: "SessionsWithConfig (log_skipper False)
        (log_hook ''LoadCheck'' (Some ''store: connection refused''))
        (log_hook ''SaveCheck'' None) (log_hook ''handler'' None) []
      = Returns (Some (''could not load the session in SessionsWithConfig; ''
                        @ ''store: connection refused''),
                 [''Skipper'', ''LoadCheck''])"
    using SessionsWithConfig_order [of "log_skipper False" "[]" "[''Skipper'']"
        "log_hook ''LoadCheck'' (Some ''store: connection refused'')" "log_hook ''SaveCheck'' None"
        "log_hook ''handler'' None"] k2 l1
    by blast
  have d: "SessionsWithConfig (log_skipper False) (log_hook ''LoadCheck'' None)
        (\<lambda>c. Panics ''scs: no session data in context'') (log_hook ''handler'' None) []
      = Panics ''scs: no session data in context''"
    using SessionsWithConfig_order [of "log_skipper False" "[]" "[''Skipper'']"
        "log_hook ''LoadCheck'' None" "\<lambda>c. Panics ''scs: no session data in context''"
        "log_hook ''handler'' None"] k2 l2
    by blast
  have e: "SessionsWithConfig (log_skipper False) (log_hook ''LoadCheck'' None)
        (log_hook ''SaveCheck'' (Some ''store: disk full'')) (log_hook ''handler'' None) []
      = Returns (Some (''could not save the session in SessionsWithConfig; ''
                        @ ''store: disk full''),
                 [''Skipper'', ''LoadCheck'', ''SaveCheck''])"
    using SessionsWithConfig_order [of "log_skipper False" "[]" "[''Skipper'']"
        "log_hook ''LoadCheck'' None" "log_hook ''SaveCheck'' (Some ''store: disk full'')"
        "log_hook ''handler'' None"] k2 l2 s1
    by blast
  have f: "SessionsWithConfig (log_skipper False) (log_hook ''LoadCheck'' None)
        (log_hook ''SaveCheck'' None) (log_hook ''handler'' None) []
      = log_hook ''handler'' None [''Skipper'', ''LoadCheck'', ''SaveCheck'']"
    using SessionsWithConfig_order [of "log_skipper False" "[]" "[''Skipper'']"
        "log_hook ''LoadCheck'' None" "log_hook ''SaveCheck'' None"
        "log_hook ''handler'' None"] k2 l2 s2
    by blast
  show ?thesis using k1 k2 l1 l2 s1 s2 a b c d e f by simp
qed

section \<open>The caching headers\<close>

lemma has_value_iff: "has_value hs v \<longleftrightarrow> v \<in> set hs"
  by (induction hs) auto

lemma canon_Vary: "CanonicalMIMEHeaderKey ''Vary'' = ''Vary''"
  by (simp add: CanonicalMIMEHeaderKey_def validHeaderFieldByte_def is_lower_def is_upper_def Let_def)

lemma canon_Cache_Control: "CanonicalMIMEHeaderKey ''Cache-Control'' = ''Cache-Control''"
  by (simp add: CanonicalMIMEHeaderKey_def validHeaderFieldByte_def is_lower_def is_upper_def Let_def)

lemma canon_Set_Cookie: "CanonicalMIMEHeaderKey ''Set-Cookie'' = ''Set-Cookie''"
  by (simp add: CanonicalMIMEHeaderKey_def validHeaderFieldByte_def is_lower_def is_upper_def Let_def)

lemma header_WriteSessionCookie:
  \<open>header (WriteSessionCookie P s now tok expiry w) =
     (header w)
       (''Set-Cookie'' := header w ''Set-Cookie'' @ [cookie_String P (session_cookie P s now tok expiry)],
        ''Cache-Control'' := (if ''no-cache="Set-Cookie"'' \<in> set (header w ''Cache-Control'')
                               then header w ''Cache-Control''
                               else header w ''Cache-Control'' @ [''no-cache="Set-Cookie"'']),
        ''Vary'' := (if ''Cookie'' \<in> set (header w ''Vary'') then header w ''Vary''
                     else header w ''Vary'' @ [''Cookie'']))\<close>
  by (auto simp: WriteSessionCookie_def AddHeaderIfMissing_def Header_Add_def has_value_iff
      canon_Vary canon_Cache_Control canon_Set_Cookie fun_eq_iff)

lemma other_WriteSessionCookie [simp]:
  "ctx (WriteSessionCookie P s now tok expiry w) = ctx w"
  "store (WriteSessionCookie P s now tok expiry w) = store w"
  by (simp_all add: WriteSessionCookie_def AddHeaderIfMissing_def)

lemma count_add_if_missing:
  "count_list (if v \<in> set hs then hs else hs @ [v]) v = max 1 (count_list hs v)"
  by (auto simp: count_list_0_iff max_def not_le Suc_le_eq)

lemma count_Vary_step:
  "count_list (header (WriteSessionCookie P s now tok expiry w) ''Vary'') ''Cookie''
   = max 1 (count_list (header w ''Vary'') ''Cookie'')"
  by (simp only: header_WriteSessionCookie fun_upd_same count_add_if_missing)

lemma count_Cache_Control_step:
  \<open>count_list (header (WriteSessionCookie P s now tok expiry w) ''Cache-Control'')
      ''no-cache="Set-Cookie"''
   = max 1 (count_list (header w ''Cache-Control'') ''no-cache="Set-Cookie"'')\<close>
  by (simp add: header_WriteSessionCookie count_add_if_missing)

lemma count_write_cookies:
  \<open>calls \<noteq> [] \<Longrightarrow>
   count_list (header (write_cookies P calls w) ''Vary'') ''Cookie''
     = max 1 (count_list (header w ''Vary'') ''Cookie'')
   \<and> count_list (header (write_cookies P calls w) ''Cache-Control'') ''no-cache="Set-Cookie"''
     = max 1 (count_list (header w ''Cache-Control'') ''no-cache="Set-Cookie"'')\<close>
proof (induction calls arbitrary: w)
  case Nil
  then show ?case by simp
next
  case (Cons c calls)
  obtain s now tok expiry where c: "c = (s, now, tok, expiry)" by (cases c) auto
  show ?case
  proof (cases "calls = []")
    case True
    then show ?thesis by (simp add: c count_Vary_step count_Cache_Control_step)
  next
    case False
    from Cons.IH [OF False, of "WriteSessionCookie P s now tok expiry w"]
    show ?thesis by (simp add: c count_Vary_step count_Cache_Control_step)
  qed
qed


text \<open>
  Claim C9. After any number of calls of WriteSessionCookie on one response, at least
  one, by one or several managers, the header holds the value \<^verbatim>\<open>no-cache="Set-Cookie"\<close>
  exactly once under Cache-Control and the value Cookie exactly once under Vary, when it
  held each at most once before: a call adds each value only when that exact value is
  not yet among the values of its key.
\<close>

theorem caching_headers_once:
  assumes \<open>calls \<noteq> []\<close>
    and \<open>count_list (header w ''Vary'') ''Cookie'' \<le> 1\<close>
    and \<open>count_list (header w ''Cache-Control'') ''no-cache="Set-Cookie"'' \<le> 1\<close>
  shows \<open>count_list (header (write_cookies P calls w) ''Vary'') ''Cookie'' = 1
       \<and> count_list (header (write_cookies P calls w) ''Cache-Control'')
            ''no-cache="Set-Cookie"'' = 1
       \<and> header (WriteSessionCookie P s now tok expiry w) ''Vary''
           = (if ''Cookie'' \<in> set (header w ''Vary'') then header w ''Vary''
              else header w ''Vary'' @ [''Cookie''])
       \<and> header (WriteSessionCookie P s now tok expiry w) ''Cache-Control''
           = (if ''no-cache="Set-Cookie"'' \<in> set (header w ''Cache-Control'')
              then header w ''Cache-Control''
              else header w ''Cache-Control'' @ [''no-cache="Set-Cookie"''])\<close>
proof -
  note c = count_write_cookies [OF assms(1), of P w]
  have v: \<open>count_list (header (write_cookies P calls w) ''Vary'') ''Cookie'' = 1\<close>
    using c assms(2) by simp
  have cc: \<open>count_list (header (write_cookies P calls w) ''Cache-Control'')
            ''no-cache="Set-Cookie"'' = 1\<close>
    using c assms(3) by simp
  show ?thesis
    using v cc by (simp add: header_WriteSessionCookie)
qed

theorem caching_headers_once_witness:
  \<open>[(demo_session, 0, ''tok1'', 86400 * Second),
     (demo_session\<lparr>contextKey := ''session.2''\<rparr>, 0, ''tok2'', 86400 * Second),
     (demo_session, 0, [], zero_time)] \<noteq> []
   \<and> count_list (header (empty_world []) ''Vary'') ''Cookie'' \<le> 1
   \<and> count_list (header (empty_world []) ''Cache-Control'') ''no-cache="Set-Cookie"'' \<le> 1
   \<and> count_list (header (write_cookies plain_platform
          [(demo_session, 0, ''tok1'', 86400 * Second),
           (demo_session\<lparr>contextKey := ''session.2''\<rparr>, 0, ''tok2'', 86400 * Second),
           (demo_session, 0, [], zero_time)] (empty_world [])) ''Vary'') ''Cookie'' = 1
   \<and> count_list (header (write_cookies plain_platform
          [(demo_session, 0, ''tok1'', 86400 * Second),
           (demo_session\<lparr>contextKey := ''session.2''\<rparr>, 0, ''tok2'', 86400 * Second),
           (demo_session, 0, [], zero_time)] (empty_world [])) ''Cache-Control'')
        ''no-cache="Set-Cookie"'' = 1
   \<and> header (write_cookies plain_platform
          [(demo_session, 0, ''tok1'', 86400 * Second),
           (demo_session\<lparr>contextKey := ''session.2''\<rparr>, 0, ''tok2'', 86400 * Second),
           (demo_session, 0, [], zero_time)] (empty_world [])) ''Set-Cookie''
      = [''tok1'', ''tok2'', []]\<close>
proof -
  let ?calls = "[(demo_session, 0, ''tok1'', 86400 * Second),
     (demo_session\<lparr>contextKey := ''session.2''\<rparr>, 0, ''tok2'', 86400 * Second),
     (demo_session, 0, [], zero_time)]"
  have h1: "?calls \<noteq> []" by simp
  have h2: "count_list (header (empty_world []) ''Vary'') ''Cookie'' \<le> 1"
    by (simp add: empty_world_def)
  have h3: \<open>count_list (header (empty_world []) ''Cache-Control'') ''no-cache="Set-Cookie"'' \<le> 1\<close>
    by (simp add: empty_world_def)
  have h4: "header (write_cookies plain_platform ?calls (empty_world [])) ''Set-Cookie''
      = [''tok1'', ''tok2'', []]"
    by (simp add: header_WriteSessionCookie session_cookie_def IsZero_def zero_time_def
        instance_defs Let_def)
  show ?thesis
    using h1 h2 h3 h4 caching_headers_once [OF h1 h2 h3, of plain_platform] by blast
qed

section \<open>Expires and MaxAge of the session cookie\<close>

text \<open>
  The \<^verbatim>\<open>float64\<close> rounding of the platform is used through two of its properties:
  it is monotone, and it leaves a multiple of \<open>1 / 2 ^ 30\<close> with a numerator below
  \<open>2 ^ 53\<close> as it is (such a number has a 53-bit significand).
\<close>

lemma float64_between:
  fixes fl :: "rat \<Rightarrow> rat"
  assumes m: "mono fl"
    and fx: "\<forall>k::int. \<bar>k\<bar> < 2 ^ 53 \<longrightarrow> fl (of_int k / 2 ^ 30) = of_int k / 2 ^ 30"
    and ka: "\<bar>ka\<bar> < 2 ^ 53" and kb: "\<bar>kb\<bar> < 2 ^ 53"
    and lo: "of_int ka / 2 ^ 30 \<le> x" and hi: "x \<le> of_int kb / 2 ^ 30"
  shows "of_int ka / 2 ^ 30 \<le> fl x \<and> fl x \<le> of_int kb / 2 ^ 30"
proof -
  have a: "fl (of_int ka / 2 ^ 30) = of_int ka / 2 ^ 30" using fx ka by blast
  have b: "fl (of_int kb / 2 ^ 30) = of_int kb / 2 ^ 30" using fx kb by blast
  have "fl (of_int ka / 2 ^ 30) \<le> fl x" using m lo by (rule monoD)
  moreover have "fl x \<le> fl (of_int kb / 2 ^ 30)" using m hi by (rule monoD)
  ultimately show ?thesis unfolding a b by blast
qed

lemma sdiv_nonneg:
  fixes d :: int
  assumes "0 \<le> d"
  shows "d sdiv Second = d div 1000000000" "d smod Second = d mod 1000000000"
  using assms by (simp_all add: Second_def signed_divide_int_def signed_modulo_int_def sgn_if)

lemma frac_bound:
  fixes n :: int
  assumes "0 \<le> n" "n \<le> 999999999"
  shows "of_int 0 / 2 ^ 30 \<le> (of_int n / 1000000000 :: rat)"
    and "(of_int n / 1000000000 :: rat) \<le> of_int (2 ^ 30 - 1) / 2 ^ 30"
proof -
  show "of_int 0 / 2 ^ 30 \<le> (of_int n / 1000000000 :: rat)" using assms by simp
  have "(of_int n :: rat) \<le> 999999999" using assms(2) by (simp add: of_int_le_numeral_iff)
  then have "(of_int n / 1000000000 :: rat) \<le> 999999999 / 1000000000"
    by (simp add: divide_right_mono)
  also have "\<dots> \<le> of_int (2 ^ 30 - 1) / 2 ^ 30" by simp
  finally show "(of_int n / 1000000000 :: rat) \<le> of_int (2 ^ 30 - 1) / 2 ^ 30" .
qed

lemma shift_lower: "of_int (s * 2 ^ 30) / 2 ^ 30 = (of_int s :: rat)"
  by simp

lemma shift_upper:
  "of_int (s * 2 ^ 30 + (2 ^ 30 - 1)) / 2 ^ 30 = (of_int s :: rat) + of_int (2 ^ 30 - 1) / 2 ^ 30"
  by (simp add: add_divide_distrib)

lemma abs_bounds:
  fixes s :: int
  assumes "0 \<le> s" "s \<le> 2 ^ 22"
  shows "\<bar>s * 2 ^ 30\<bar> < 2 ^ 53" "\<bar>s * 2 ^ 30 + (2 ^ 30 - 1)\<bar> < 2 ^ 53"
  using assms by simp_all

lemma float64_step:
  fixes fl :: "rat \<Rightarrow> rat" and s :: int
  assumes m: "mono fl"
    and fx: "\<forall>k::int. \<bar>k\<bar> < 2 ^ 53 \<longrightarrow> fl (of_int k / 2 ^ 30) = of_int k / 2 ^ 30"
    and s: "0 \<le> s" "s \<le> 2 ^ 22"
    and f: "0 \<le> f" "f \<le> of_int (2 ^ 30 - 1) / 2 ^ 30"
  shows "of_int s \<le> fl (of_int s + f) \<and> fl (of_int s + f) \<le> of_int s + of_int (2 ^ 30 - 1) / 2 ^ 30"
proof -
  have lo: "of_int (s * 2 ^ 30) / 2 ^ 30 \<le> of_int s + f"
    unfolding shift_lower using f(1) by simp
  have hi: "of_int s + f \<le> of_int (s * 2 ^ 30 + (2 ^ 30 - 1)) / 2 ^ 30"
    unfolding shift_upper using f(2) by simp
  from float64_between [OF m fx abs_bounds [OF s] lo hi]
  show ?thesis unfolding shift_lower shift_upper .
qed

lemma MaxAge_value:
  fixes d :: int
  assumes m: "mono (float64 P)"
    and fx: "\<forall>k::int. \<bar>k\<bar> < 2 ^ 53 \<longrightarrow> float64 P (of_int k / 2 ^ 30) = of_int k / 2 ^ 30"
    and d0: "0 \<le> d" and d1: "d < 2 ^ 22 * Second"
  shows "to_int (float64 P (Seconds P d + 1)) = d div Second + 1"
proof -
  define sec where "sec = d div 1000000000"
  define nsec where "nsec = d mod 1000000000"
  have sec0: "0 \<le> sec" using d0 by (simp add: sec_def pos_imp_zdiv_nonneg_iff)
  have n: "0 \<le> nsec" "nsec \<le> 999999999" by (simp_all add: nsec_def)
  have dd: "d = sec * 1000000000 + nsec" by (simp add: sec_def nsec_def)
  have "d < 4194304 * 1000000000" using d1 by (simp add: Second_def)
  with dd n(1) have "sec < 4194304" by linarith
  then have sec1: "sec \<le> 2 ^ 22" "sec + 1 \<le> 2 ^ 22" by simp_all
  define f1 where "f1 = float64 P (of_int nsec / 1000000000)"
  define f2 where "f2 = float64 P (of_int sec + f1)"
  define f3 where "f3 = float64 P (f2 + 1)"
  have z: "(0 :: rat) = of_int 0 / 2 ^ 30" by simp
  have f1: "0 \<le> f1" "f1 \<le> of_int (2 ^ 30 - 1) / 2 ^ 30"
    using float64_between [OF m fx _ _ frac_bound [OF n]]
    by (simp_all add: f1_def)
  have f2: "of_int sec \<le> f2" "f2 \<le> of_int sec + of_int (2 ^ 30 - 1) / 2 ^ 30"
    using float64_step [OF m fx sec0 sec1(1) f1] by (simp_all add: f2_def)
  have g: "0 \<le> f2 - of_int sec" "f2 - of_int sec \<le> of_int (2 ^ 30 - 1) / 2 ^ 30"
    using f2 by simp_all
  have e: "of_int (sec + 1) + (f2 - of_int sec) = f2 + 1" by simp
  have s1: "0 \<le> sec + 1" using sec0 by simp
  have f3: "of_int (sec + 1) \<le> f3" "f3 \<le> of_int (sec + 1) + of_int (2 ^ 30 - 1) / 2 ^ 30"
    using float64_step [OF m fx s1 sec1(2) g] unfolding e by (simp_all add: f3_def)
  have "of_int (2 ^ 30 - 1) / 2 ^ 30 < (1 :: rat)" by simp
  with f3(2) have hi: "f3 < of_int (sec + 1) + 1" by linarith
  have fl: "\<lfloor>f3\<rfloor> = sec + 1" using f3(1) hi by (rule floor_unique)
  have "(0 :: rat) \<le> of_int (sec + 1)" using s1 by simp
  with f3(1) have "0 \<le> f3" by linarith
  with fl have t: "to_int f3 = sec + 1" by (simp add: to_int_def)
  have "Seconds P d = f2"
    by (simp add: Seconds_def sdiv_nonneg [OF d0] f2_def f1_def sec_def nsec_def)
  then have "float64 P (Seconds P d + 1) = f3" by (simp add: f3_def)
  with t show ?thesis by (simp add: sec_def Second_def)
qed

lemma ceiling_of_seconds:
  fixes d :: int
  assumes "d mod Second \<noteq> 0"
  shows "\<lceil>rat_of_int d / rat_of_int Second\<rceil> = d div Second + 1"
proof -
  have "\<lceil>rat_of_int d / rat_of_int Second\<rceil> = - (- d div Second)"
    by (rule ceiling_divide_eq_div)
  also have "\<dots> = d div Second + 1"
    using assms by (simp add: zdiv_zminus1_eq_if Second_def)
  finally show ?thesis .
qed

lemma Set_Cookie_appended:
  "header (WriteSessionCookie P s now tok expiry w) ''Set-Cookie''
   = header w ''Set-Cookie'' @ [cookie_String P (session_cookie P s now tok expiry)]"
  by (simp add: WriteSessionCookie_def AddHeaderIfMissing_def Header_Add_def canon_Set_Cookie
      CanonicalMIMEHeaderKey_def validHeaderFieldByte_def is_lower_def is_upper_def Let_def)

lemma Until_in_range: "0 \<le> expiry - now \<Longrightarrow> expiry - now < 2 ^ 22 * Second \<Longrightarrow>
  Until now expiry = expiry - now"
  by (simp add: Until_def Second_def)

text \<open>
  Claim C5, as the code has it. For the zero expiry, WriteSessionCookie sets Expires to
  Unix time 1 and MaxAge to -1. For any other expiry, when Cookie.Persist is true, it
  sets Expires to the expiry cut down to whole seconds plus one second, and MaxAge to
  the seconds from now until the expiry rounded up, when that time is not a whole number
  of seconds; the latter for an expiry from now up to \<open>2 ^ 22\<close> seconds ahead, where
  the \<^verbatim>\<open>float64\<close> computation is exact enough. The cookie is serialised into one more
  Set-Cookie value of the response.
\<close>

theorem session_cookie_Expires_MaxAge:
  "(IsZero expiry \<longrightarrow>
      c_Expires (session_cookie P s now tok expiry) = time_Unix 1
    \<and> c_MaxAge (session_cookie P s now tok expiry) = - 1)
 \<and> (\<not> IsZero expiry \<longrightarrow> Persist (Cookie s) \<longrightarrow>
      c_Expires (session_cookie P s now tok expiry) = expiry - expiry mod Second + Second
    \<and> (mono (float64 P) \<longrightarrow>
         (\<forall>k::int. \<bar>k\<bar> < 2 ^ 53 \<longrightarrow> float64 P (of_int k / 2 ^ 30) = of_int k / 2 ^ 30) \<longrightarrow>
         0 \<le> expiry - now \<longrightarrow> expiry - now < 2 ^ 22 * Second \<longrightarrow>
         (expiry - now) mod Second \<noteq> 0 \<longrightarrow>
         c_MaxAge (session_cookie P s now tok expiry)
           = \<lceil>rat_of_int (expiry - now) / rat_of_int Second\<rceil>))
 \<and> header (WriteSessionCookie P s now tok expiry w) ''Set-Cookie''
     = header w ''Set-Cookie'' @ [cookie_String P (session_cookie P s now tok expiry)]"
proof (intro conjI impI)
  assume "IsZero expiry"
  then show "c_Expires (session_cookie P s now tok expiry) = time_Unix 1"
    and "c_MaxAge (session_cookie P s now tok expiry) = - 1"
    by (simp_all add: session_cookie_def Let_def)
next
  assume a: "\<not> IsZero expiry" "Persist (Cookie s)"
  have "expiry div Second * Second = expiry - expiry mod Second"
    by (simp add: minus_mod_eq_div_mult)
  then show "c_Expires (session_cookie P s now tok expiry) = expiry - expiry mod Second + Second"
    using a by (simp add: session_cookie_def Let_def time_Unix_def Unix_def algebra_simps)
  assume f: "mono (float64 P)"
    "\<forall>k::int. \<bar>k\<bar> < 2 ^ 53 \<longrightarrow> float64 P (of_int k / 2 ^ 30) = of_int k / 2 ^ 30"
    and d: "0 \<le> expiry - now" "expiry - now < 2 ^ 22 * Second"
    and r: "(expiry - now) mod Second \<noteq> 0"
  have "c_MaxAge (session_cookie P s now tok expiry) = (expiry - now) div Second + 1"
    using a MaxAge_value [OF f d]
    by (simp add: session_cookie_def Let_def Until_in_range [OF d])
  then show "c_MaxAge (session_cookie P s now tok expiry)
           = \<lceil>rat_of_int (expiry - now) / rat_of_int Second\<rceil>"
    by (simp only: ceiling_of_seconds [OF r])
next
  show "header (WriteSessionCookie P s now tok expiry w) ''Set-Cookie''
     = header w ''Set-Cookie'' @ [cookie_String P (session_cookie P s now tok expiry)]"
    by (rule Set_Cookie_appended)
qed

text \<open>
  With an expiry of 1.5 s and a clock reading of 0.5 s (Unix times), Expires is 2 s, not
  2.5 s, and MaxAge is 2, not 1; every \<^verbatim>\<open>float64\<close> value of this computation is a
  small integer, so no rounding takes place.
\<close>

theorem session_cookie_Expires_MaxAge_counterexample:
  "\<not> IsZero 1500000000 \<and> Persist (Cookie demo_session)
   \<and> c_Expires (session_cookie plain_platform demo_session 500000000 ''tok'' 1500000000)
       = 2000000000
   \<and> 1500000000 + Second \<noteq> 2000000000
   \<and> c_MaxAge (session_cookie plain_platform demo_session 500000000 ''tok'' 1500000000) = 2
   \<and> \<lceil>rat_of_int (1500000000 - 500000000) / rat_of_int Second\<rceil> \<noteq> 2"
  by (simp add: session_cookie_def IsZero_def zero_time_def time_Unix_def Unix_def Until_def
      Seconds_def to_int_def signed_divide_int_def signed_modulo_int_def instance_defs Let_def)

theorem session_cookie_Expires_MaxAge_witness:
  "IsZero zero_time
   \<and> c_Expires (session_cookie plain_platform demo_session 500000000 [] zero_time) = Second
   \<and> c_MaxAge (session_cookie plain_platform demo_session 500000000 [] zero_time) = - 1
   \<and> \<not> IsZero 1500000000 \<and> Persist (Cookie demo_session)
   \<and> float64 plain_platform = (\<lambda>x. x)
   \<and> (0::int) \<le> 1500000000 - 250000000 \<and> (1500000000 - 250000000 :: int) < 2 ^ 22 * Second
   \<and> (1500000000 - 250000000 :: int) mod Second \<noteq> 0
   \<and> \<lceil>rat_of_int (1500000000 - 250000000) / rat_of_int Second\<rceil> = 2
   \<and> c_Expires (session_cookie plain_platform demo_session 250000000 ''tok'' 1500000000)
       = 2 * Second
   \<and> c_MaxAge (session_cookie plain_platform demo_session 250000000 ''tok'' 1500000000) = 2
   \<and> header (WriteSessionCookie plain_platform demo_session 250000000 ''tok'' 1500000000
         (empty_world [])) ''Set-Cookie'' = [''tok'']"
proof -
  note Z = session_cookie_Expires_MaxAge
      [of zero_time plain_platform demo_session 500000000 "[]" "empty_world []"]
  note T = session_cookie_Expires_MaxAge
      [of 1500000000 plain_platform demo_session 250000000 "''tok''" "empty_world []"]
  have z: "IsZero zero_time" by (simp add: IsZero_def)
  have z1: "c_Expires (session_cookie plain_platform demo_session 500000000 [] zero_time) = Second"
    using Z z by (simp add: time_Unix_def)
  have z2: "c_MaxAge (session_cookie plain_platform demo_session 500000000 [] zero_time) = - 1"
    using Z z by simp
  have h1: "\<not> IsZero 1500000000" by (simp add: IsZero_def zero_time_def)
  have h2: "Persist (Cookie demo_session)" by (simp add: instance_defs)
  have h3: "mono (float64 plain_platform)" by (simp add: plain_platform_def mono_def)
  have h4: "\<forall>k::int. \<bar>k\<bar> < 2 ^ 53 \<longrightarrow>
         float64 plain_platform (of_int k / 2 ^ 30) = of_int k / 2 ^ 30"
    by (simp add: plain_platform_def)
  have h5: "(0::int) \<le> 1500000000 - 250000000" by simp
  have h6: "(1500000000 - 250000000 :: int) < 2 ^ 22 * Second" by (simp add: Second_def)
  have h7: "float64 plain_platform = (\<lambda>x. x)" by (simp add: plain_platform_def)
  have h8: "(1500000000 - 250000000 :: int) mod Second \<noteq> 0" by (simp add: Second_def)
  have e: "(1500000000 :: int) - 1500000000 mod Second + Second = 2 * Second"
    "\<lceil>rat_of_int (1500000000 - 250000000) / rat_of_int Second\<rceil> = 2"
    using ceiling_of_seconds [OF h8] by (simp_all add: Second_def)
  have t1: "c_Expires (session_cookie plain_platform demo_session 250000000 ''tok'' 1500000000)
       = 2 * Second"
    using T h1 h2 e(1) by simp
  have t2: "c_MaxAge (session_cookie plain_platform demo_session 250000000 ''tok'' 1500000000) = 2"
    using T h1 h2 h3 h4 h5 h6 h8 e(2) by simp
  have "cookie_String plain_platform
          (session_cookie plain_platform demo_session 250000000 ''tok'' 1500000000) = ''tok''"
    by (simp add: plain_platform_def session_cookie_def Let_def h1)
  then have t3: "header (WriteSessionCookie plain_platform demo_session 250000000 ''tok''
         1500000000 (empty_world [])) ''Set-Cookie'' = [''tok'']"
    using T by (simp add: empty_world_def)
  show ?thesis using z z1 z2 h1 h2 h5 h6 h7 h8 e(2) t1 t2 t3 by blast
qed

end
